theory Spec2Isabelle
  imports Main
begin

section \<open>Text and numbers of the host language\<close>

text \<open>
  The program is the TypeScript module \<^verbatim>\<open>src/assets/main.js\<close> (the file holds the
  emitted JavaScript followed by its TypeScript source; both have the same bodies).
  Modelled are \<^verbatim>\<open>readFunnelConfig\<close>, \<^verbatim>\<open>persistConfig\<close>, \<^verbatim>\<open>loadConfig\<close>,
  \<^verbatim>\<open>renderFunnelSnapshot\<close>, \<^verbatim>\<open>queryElement\<close>, the two stage tables and the click
  handler of \<^verbatim>\<open>setupDownloadBrief\<close>, together with the parts of the host they call:
  \<^verbatim>\<open>FormData\<close>, \<^verbatim>\<open>Number\<close>, number printing, \<^verbatim>\<open>JSON\<close>, \<^verbatim>\<open>localStorage\<close> and the
  document. A function that can throw returns \<open>error + 'a\<close>, with \<open>Inl\<close> the error.

  A string of the program is a sequence of UTF-16 code units, modelled as a list of
  natural numbers. Literals of the source are written \<open>js ''...''\<close>.
\<close>

type_synonym jsstring = "nat list"

definition js :: "string \<Rightarrow> jsstring" where
  "js s = map of_char s"

text \<open>
  \<^verbatim>\<open>WhiteSpace\<close> and \<^verbatim>\<open>LineTerminator\<close> of ECMAScript: TAB, LF, VT, FF, CR, SP, NBSP,
  U+1680, U+2000..U+200A, LS, PS, U+202F, U+205F, U+3000 and U+FEFF. The same set is
  stripped by \<^verbatim>\<open>String.prototype.trim\<close> and around a numeric string.
\<close>

definition isStrWhiteSpaceChar :: "nat \<Rightarrow> bool" where
  "isStrWhiteSpaceChar c \<longleftrightarrow>
     (9 \<le> c \<and> c \<le> 13) \<or> c = 32 \<or> c = 160 \<or> c = 5760 \<or> (8192 \<le> c \<and> c \<le> 8202) \<or>
     c = 8232 \<or> c = 8233 \<or> c = 8239 \<or> c = 8287 \<or> c = 12288 \<or> c = 65279"

definition trim :: "jsstring \<Rightarrow> jsstring" where
  "trim s = rev (dropWhile isStrWhiteSpaceChar (rev (dropWhile isStrWhiteSpaceChar s)))"

text \<open>
  A Number value. The program never computes with numbers: it reads them from text
  (\<^verbatim>\<open>Number(...)\<close>, \<^verbatim>\<open>JSON.parse\<close>) and prints them (\<^verbatim>\<open>toLocaleString\<close>, \<^verbatim>\<open>toFixed\<close>,
  \<^verbatim>\<open>JSON.stringify\<close>). A finite number is therefore kept as the decimal it denotes:
  \<open>Finite neg m e\<close> is \<open>(-1)^neg * m * 10^e\<close>, with \<open>m\<close> free of trailing zeros and
  \<open>e = 0\<close> when \<open>m = 0\<close> (so \<open>Finite True 0 0\<close> is the negative zero). The rounding of a
  decimal to the nearest binary64 value is not part of the model; it is the identity
  on decimals of up to 15 significant digits in the binary64 range.
\<close>

datatype jsnum = NaN | PosInfinity | NegInfinity | Finite bool nat int

function norm10 :: "nat \<Rightarrow> int \<Rightarrow> nat \<times> int" where
  "norm10 m e =
     (if m = 0 then (0, 0)
      else if m mod 10 = 0 then norm10 (m div 10) (e + 1)
      else (m, e))"
  by pat_completeness auto
termination
  by (relation "measure (\<lambda>(m, e). m)") auto

declare norm10.simps [simp del]

definition mkFinite :: "bool \<Rightarrow> nat \<Rightarrow> int \<Rightarrow> jsnum" where
  "mkFinite neg m e = (case norm10 m e of (m', e') \<Rightarrow> Finite neg m' e')"


subsection \<open>\<^verbatim>\<open>Number(string)\<close>: the StringNumericLiteral grammar\<close>

definition isDecimalDigit :: "nat \<Rightarrow> bool" where
  "isDecimalDigit c \<longleftrightarrow> 48 \<le> c \<and> c \<le> 57"

definition isHexDigit :: "nat \<Rightarrow> bool" where
  "isHexDigit c \<longleftrightarrow> isDecimalDigit c \<or> (97 \<le> c \<and> c \<le> 102) \<or> (65 \<le> c \<and> c \<le> 70)"

definition hexDigitValue :: "nat \<Rightarrow> nat" where
  "hexDigitValue c = (if c \<le> 57 then c - 48 else if c \<le> 70 then c - 55 else c - 87)"

definition radixValue :: "nat \<Rightarrow> jsstring \<Rightarrow> nat" where
  "radixValue b ds = foldl (\<lambda>a c. b * a + hexDigitValue c) 0 ds"

definition digitsValue :: "jsstring \<Rightarrow> nat" where
  "digitsValue ds = radixValue 10 ds"

text \<open>\<^verbatim>\<open>SignedInteger\<close> of an exponent part: digits with an optional sign.\<close>

definition SignedInteger :: "jsstring \<Rightarrow> int option" where
  "SignedInteger s =
     (case s of
        [] \<Rightarrow> None
      | c # ds \<Rightarrow>
          if c = of_char CHR ''+'' then
            (if ds \<noteq> [] \<and> list_all isDecimalDigit ds then Some (int (digitsValue ds)) else None)
          else if c = of_char CHR ''-'' then
            (if ds \<noteq> [] \<and> list_all isDecimalDigit ds then Some (- int (digitsValue ds)) else None)
          else if list_all isDecimalDigit s then Some (int (digitsValue s))
          else None)"

text \<open>\<^verbatim>\<open>ExponentPart\<close>, optional: nothing left is exponent 0.\<close>

definition ExponentPart_opt :: "jsstring \<Rightarrow> int option" where
  "ExponentPart_opt s =
     (case s of
        [] \<Rightarrow> Some 0
      | c # r \<Rightarrow>
          if c = of_char CHR ''e'' \<or> c = of_char CHR ''E'' then SignedInteger r else None)"

text \<open>
  \<^verbatim>\<open>StrUnsignedDecimalLiteral\<close>: \<^verbatim>\<open>Infinity\<close>, \<^verbatim>\<open>digits . digits? exp?\<close>,
  \<^verbatim>\<open>. digits exp?\<close> or \<^verbatim>\<open>digits exp?\<close>. The result is \<open>None\<close> when the text is
  not of that form, \<open>Some None\<close> for \<^verbatim>\<open>Infinity\<close>, and \<open>Some (Some (m, e))\<close> for the
  decimal \<open>m * 10^e\<close>.
\<close>

definition StrUnsignedDecimalLiteral :: "jsstring \<Rightarrow> (nat \<times> int) option option" where
  "StrUnsignedDecimalLiteral s =
     (if s = js ''Infinity'' then Some None
      else
        let ip = takeWhile isDecimalDigit s; r1 = dropWhile isDecimalDigit s in
        case r1 of
          [] \<Rightarrow> if ip = [] then None else Some (Some (digitsValue ip, 0))
        | c # r2 \<Rightarrow>
            if c = of_char CHR ''.'' then
              let fp = takeWhile isDecimalDigit r2; r3 = dropWhile isDecimalDigit r2 in
              if ip = [] \<and> fp = [] then None
              else
                (case ExponentPart_opt r3 of
                   None \<Rightarrow> None
                 | Some x \<Rightarrow> Some (Some (digitsValue (ip @ fp), x - int (length fp))))
            else if ip = [] then None
            else
              (case ExponentPart_opt r1 of
                 None \<Rightarrow> None
               | Some x \<Rightarrow> Some (Some (digitsValue ip, x))))"

text \<open>\<^verbatim>\<open>NonDecimalIntegerLiteral\<close>: \<^verbatim>\<open>0x\<close>, \<^verbatim>\<open>0o\<close>, \<^verbatim>\<open>0b\<close> and their digits; no sign.\<close>

definition NonDecimalIntegerLiteral :: "jsstring \<Rightarrow> nat option" where
  "NonDecimalIntegerLiteral s =
     (case s of
        z # x # ds \<Rightarrow>
          if z \<noteq> of_char CHR ''0'' \<or> ds = [] then None
          else if (x = of_char CHR ''x'' \<or> x = of_char CHR ''X'') \<and> list_all isHexDigit ds
            then Some (radixValue 16 ds)
          else if (x = of_char CHR ''o'' \<or> x = of_char CHR ''O'') \<and>
                  list_all (\<lambda>c. 48 \<le> c \<and> c \<le> 55) ds
            then Some (radixValue 8 ds)
          else if (x = of_char CHR ''b'' \<or> x = of_char CHR ''B'') \<and>
                  list_all (\<lambda>c. 48 \<le> c \<and> c \<le> 49) ds
            then Some (radixValue 2 ds)
          else None
      | _ \<Rightarrow> None)"

definition signedDecimal :: "bool \<Rightarrow> jsstring \<Rightarrow> jsnum" where
  "signedDecimal neg s =
     (case StrUnsignedDecimalLiteral s of
        None \<Rightarrow> NaN
      | Some None \<Rightarrow> (if neg then NegInfinity else PosInfinity)
      | Some (Some (m, e)) \<Rightarrow> mkFinite neg m e)"

text \<open>
  \<^verbatim>\<open>StringToNumber\<close>: surrounding white space is dropped; the empty text is \<open>+0\<close>; a
  text that is no numeric literal is \<open>NaN\<close>.
\<close>

definition StringToNumber :: "jsstring \<Rightarrow> jsnum" where
  "StringToNumber s =
     (let t = trim s in
      case t of
        [] \<Rightarrow> Finite False 0 0
      | c # r \<Rightarrow>
          (case NonDecimalIntegerLiteral t of
             Some n \<Rightarrow> mkFinite False n 0
           | None \<Rightarrow>
               if c = of_char CHR ''+'' then signedDecimal False r
               else if c = of_char CHR ''-'' then signedDecimal True r
               else signedDecimal False t))"

section \<open>The funnel configuration and the form reader\<close>

text \<open>
  \<^verbatim>\<open>interface FunnelConfig\<close>. The type \<^verbatim>\<open>StageKey\<close> exists at compile time only:
  \<^verbatim>\<open>readFunnelConfig\<close> casts whatever text the form holds, so a stage is a string.
\<close>

record FunnelConfig =
  business :: jsstring
  industry :: jsstring
  sessions :: jsnum
  cpa :: jsnum
  stages :: "jsstring list"
  newsletter :: bool

text \<open>
  \<^verbatim>\<open>new FormData(form)\<close> is the entry list of the form: the (name, value) pairs of its
  successful controls in tree order. A checked checkbox contributes its value (\<^verbatim>\<open>on\<close>
  when it has no value attribute), an unchecked one contributes nothing. The form of
  this page has no file control, so every value is a string.
\<close>

type_synonym FormData = "(jsstring \<times> jsstring) list"

text \<open>\<^verbatim>\<open>formData.get(name)\<close>: the value of the first entry of that name, or null.\<close>

fun formData_get :: "FormData \<Rightarrow> jsstring \<Rightarrow> jsstring option" where
  "formData_get [] name = None"
| "formData_get ((n, v) # es) name = (if n = name then Some v else formData_get es name)"

text \<open>\<^verbatim>\<open>formData.getAll(name)\<close>: the values of all entries of that name, in list order.\<close>

fun formData_getAll :: "FormData \<Rightarrow> jsstring \<Rightarrow> jsstring list" where
  "formData_getAll [] name = []"
| "formData_getAll ((n, v) # es) name =
     (if n = name then v # formData_getAll es name else formData_getAll es name)"

text \<open>\<^verbatim>\<open>Number(formData.get(name) ?? 0)\<close>.\<close>

definition numberField :: "FormData \<Rightarrow> jsstring \<Rightarrow> jsnum" where
  "numberField formData name =
     (case formData_get formData name of
        None \<Rightarrow> Finite False 0 0
      | Some v \<Rightarrow> StringToNumber v)"

text \<open>\<^verbatim>\<open>formData.get(name)?.toString().trim() ?? ''\<close>.\<close>

definition textField :: "FormData \<Rightarrow> jsstring \<Rightarrow> jsstring" where
  "textField formData name =
     (case formData_get formData name of
        None \<Rightarrow> []
      | Some v \<Rightarrow> trim v)"

definition defaultStages :: "jsstring list" where
  "defaultStages = [js ''awareness'', js ''consideration'', js ''conversion'']"

definition readFunnelConfig :: "FormData \<Rightarrow> FunnelConfig" where
  "readFunnelConfig formData =
     (let stages = formData_getAll formData (js ''stage'') in
      \<lparr> business = textField formData (js ''business''),
        industry = textField formData (js ''industry''),
        sessions = numberField formData (js ''sessions''),
        cpa = numberField formData (js ''cpa''),
        stages = (if length stages > 0 then stages else defaultStages),
        newsletter = (formData_get formData (js ''newsletter'') = Some (js ''on'')) \<rparr>)"

section \<open>The stage catalog\<close>

text \<open>
  \<^verbatim>\<open>stageDescriptions[stage]\<close> and \<^verbatim>\<open>stageKpis[stage]\<close>: the own properties of the two
  object literals. A key that is none of the four has no own property and the lookup
  is \<^verbatim>\<open>undefined\<close>, here \<open>None\<close>. (Names inherited from \<^verbatim>\<open>Object.prototype\<close>, such as
  \<^verbatim>\<open>constructor\<close>, are not stage keys and are not modelled.)
\<close>

definition stageDescriptions :: "jsstring \<Rightarrow> jsstring option" where
  "stageDescriptions stage =
     (if stage = js ''awareness'' then
        Some (js ''Build omnichannel reach with paid social, influencer partnerships, and hero content hubs.'')
      else if stage = js ''consideration'' then
        Some (js ''Drive mid-funnel intent with progressive profiling, comparison guides, and nurture sequences.'')
      else if stage = js ''conversion'' then
        Some (js ''Optimize acquisition moments with CRO testing, sales enablement, and automated onboarding.'')
      else if stage = js ''retention'' then
        Some (js ''Expand lifetime value through loyalty programs, lifecycle messaging, and advocacy campaigns.'')
      else None)"

definition stageKpis :: "jsstring \<Rightarrow> jsstring option" where
  "stageKpis stage =
     (if stage = js ''awareness'' then
        Some (js ''Primary KPIs: reach, CPM efficiency, and top-of-funnel CTR.'')
      else if stage = js ''consideration'' then
        Some (js ''Primary KPIs: MQL velocity, content engagement depth, and remarketing lift.'')
      else if stage = js ''conversion'' then
        Some (js ''Primary KPIs: CAC trendline, pipeline velocity, and on-site conversion rate.'')
      else if stage = js ''retention'' then
        Some (js ''Primary KPIs: repeat purchase rate, churn reduction, and NPS elevation.'')
      else None)"

text \<open>A value inside a template literal: \<^verbatim>\<open>undefined\<close> prints as that word.\<close>

definition templateText :: "jsstring option \<Rightarrow> jsstring" where
  "templateText v = (case v of None \<Rightarrow> js ''undefined'' | Some t \<Rightarrow> t)"

text \<open>
  \<^verbatim>\<open>toUpperCase\<close> on Basic Latin text, which is what the stage keys are. The Unicode
  case mappings of other letters are not modelled: such code units are left as they are.
\<close>

definition toUpperCase :: "jsstring \<Rightarrow> jsstring" where
  "toUpperCase s = map (\<lambda>c. if 97 \<le> c \<and> c \<le> 122 then c - 32 else c) s"

text \<open>\<^verbatim>\<open>stage.charAt(0).toUpperCase() + stage.slice(1)\<close>.\<close>

definition capitalize :: "jsstring \<Rightarrow> jsstring" where
  "capitalize stage = toUpperCase (take 1 stage) @ drop 1 stage"

text \<open>\<^verbatim>\<open>a || b\<close> on strings: the empty string is falsy.\<close>

definition orElse :: "jsstring \<Rightarrow> jsstring \<Rightarrow> jsstring" where
  "orElse a b = (if a = [] then b else a)"

text \<open>\<^verbatim>\<open>Array.prototype.join\<close>.\<close>

fun Array_join :: "jsstring \<Rightarrow> jsstring list \<Rightarrow> jsstring" where
  "Array_join sep [] = []"
| "Array_join sep [x] = x"
| "Array_join sep (x # y # r) = x @ sep @ Array_join sep (y # r)"

section \<open>Printing numbers\<close>

function digitsOf :: "nat \<Rightarrow> jsstring" where
  "digitsOf n = (if n < 10 then [48 + n] else digitsOf (n div 10) @ [48 + n mod 10])"
  by pat_completeness auto
termination
  by (relation "measure id") auto

declare digitsOf.simps [simp del]

text \<open>
  \<^verbatim>\<open>Number::toString\<close> in radix 10. For a finite non-zero \<open>m * 10^e\<close> with the \<open>k\<close>
  digits of \<open>m\<close> and \<open>n = k + e\<close>: plain digits with trailing zeros when
  \<open>k \<le> n \<le> 21\<close>, a decimal point inside the digits when \<open>0 < n \<le> 21\<close>, leading
  \<^verbatim>\<open>0.\<close> and zeros when \<open>-6 < n \<le> 0\<close>, and exponent notation otherwise.
\<close>

definition positiveToString :: "nat \<Rightarrow> int \<Rightarrow> jsstring" where
  "positiveToString m e =
     (let ds = digitsOf m; k = int (length ds); n = k + e in
      if k \<le> n \<and> n \<le> 21 then ds @ replicate (nat (n - k)) (of_char CHR ''0'')
      else if 0 < n \<and> n \<le> 21 then take (nat n) ds @ js ''.'' @ drop (nat n) ds
      else if - 6 < n \<and> n \<le> 0 then js ''0.'' @ replicate (nat (- n)) (of_char CHR ''0'') @ ds
      else
        let x = n - 1;
            sgn = (if x < 0 then js ''-'' else js ''+'');
            xs = digitsOf (nat \<bar>x\<bar>)
        in if k = 1 then ds @ js ''e'' @ sgn @ xs
           else take 1 ds @ js ''.'' @ drop 1 ds @ js ''e'' @ sgn @ xs)"

fun Number_toString :: "jsnum \<Rightarrow> jsstring" where
  "Number_toString NaN = js ''NaN''"
| "Number_toString PosInfinity = js ''Infinity''"
| "Number_toString NegInfinity = js ''-Infinity''"
| "Number_toString (Finite neg m e) =
     (if m = 0 then js ''0''
      else (if neg then js ''-'' else []) @ positiveToString m e)"

text \<open>
  The integer nearest to \<open>m * 10^e\<close>, the larger one on a tie (the rule of
  \<^verbatim>\<open>toFixed\<close>; on a non-negative number it is rounding half up).
\<close>

definition roundHalfUp :: "nat \<Rightarrow> int \<Rightarrow> nat" where
  "roundHalfUp m e =
     (if 0 \<le> e then m * 10 ^ nat e
      else (2 * m + 10 ^ nat (- e)) div (2 * 10 ^ nat (- e)))"

text \<open>
  \<^verbatim>\<open>x.toFixed(0)\<close>: a non-finite number prints as \<^verbatim>\<open>toString\<close> does; otherwise the
  sign (none for either zero), then \<^verbatim>\<open>toString\<close> of the magnitude when it is at least
  \<open>10^21\<close>, else the digits of the magnitude rounded to an integer.
\<close>

fun Number_toFixed0 :: "jsnum \<Rightarrow> jsstring" where
  "Number_toFixed0 (Finite neg m e) =
     (if neg \<and> m \<noteq> 0 then js ''-'' else []) @
     (if m \<noteq> 0 \<and> int (length (digitsOf m)) + e > 21 then Number_toString (Finite False m e)
      else digitsOf (roundHalfUp m e))"
| "Number_toFixed0 x = Number_toString x"

text \<open>
  \<^verbatim>\<open>x.toLocaleString()\<close> formats with the host's default locale, which the program does
  not choose. The render and export functions therefore take the formatter as a
  parameter. \<open>localeFormat\<close> is the default decimal style of \<^verbatim>\<open>Intl.NumberFormat\<close> for a
  locale that groups the integer digits in threes: at most three fraction digits,
  rounded half away from zero, trailing fraction zeros dropped. \<open>en_US\<close> groups with a
  comma and has a decimal point, \<open>de_DE\<close> groups with a point and has a decimal comma.
\<close>

function groupDigits :: "jsstring \<Rightarrow> jsstring \<Rightarrow> jsstring" where
  "groupDigits sep ds =
     (if length ds \<le> 3 then ds
      else groupDigits sep (take (length ds - 3) ds) @ sep @ drop (length ds - 3) ds)"
  by pat_completeness auto
termination
  by (relation "measure (\<lambda>(sep, ds). length ds)") auto

declare groupDigits.simps [simp del]

definition fractionDigits :: "nat \<Rightarrow> jsstring" where
  "fractionDigits t =
     rev (dropWhile (\<lambda>c. c = of_char CHR ''0'')
       (rev [48 + t div 100, 48 + t div 10 mod 10, 48 + t mod 10]))"

fun localeFormat :: "jsstring \<Rightarrow> jsstring \<Rightarrow> jsnum \<Rightarrow> jsstring" where
  "localeFormat grp dec NaN = js ''NaN''"
| "localeFormat grp dec PosInfinity = [8734]"
| "localeFormat grp dec NegInfinity = js ''-'' @ [8734]"
| "localeFormat grp dec (Finite neg m e) =
     (let t = roundHalfUp m (e + 3) in
      (if neg then js ''-'' else []) @ groupDigits grp (digitsOf (t div 1000)) @
      (if t mod 1000 = 0 then [] else dec @ fractionDigits (t mod 1000)))"

definition en_US :: "jsnum \<Rightarrow> jsstring" where
  "en_US = localeFormat (js '','') (js ''.'')"

definition de_DE :: "jsnum \<Rightarrow> jsstring" where
  "de_DE = localeFormat (js ''.'') (js '','')"

section \<open>The page\<close>

text \<open>
  What the program observes of the document: which selectors match an element, the
  child nodes of that element and, for a form, its entry list. A child node made by the
  program is an element with a tag name and a text content.
\<close>

datatype node = Element (tagName: jsstring) (textContent: jsstring)

record element =
  childNodes :: "node list"
  entryList :: FormData

type_synonym document = "jsstring \<rightharpoonup> element"

datatype error =
    Error jsstring
  | SecurityError
  | QuotaExceededError
  | SyntaxError
  | TypeError

definition queryElement :: "jsstring \<Rightarrow> document \<Rightarrow> error + element" where
  "queryElement selector doc =
     (case doc selector of
        None \<Rightarrow> Inl (Error (js ''Element not found for selector: '' @ selector))
      | Some element \<Rightarrow> Inr element)"

definition element_append :: "element \<Rightarrow> node \<Rightarrow> element" where
  "element_append container n = container\<lparr>childNodes := childNodes container @ [n]\<rparr>"

definition replaceChildren :: "element \<Rightarrow> element" where
  "replaceChildren container = container\<lparr>childNodes := []\<rparr>"

section \<open>The snapshot renderer\<close>

definition headingText :: "FunnelConfig \<Rightarrow> jsstring" where
  "headingText config = orElse (business config) (js ''Your brand'') @ js '' funnel overview''"

definition summaryText :: "(jsnum \<Rightarrow> jsstring) \<Rightarrow> FunnelConfig \<Rightarrow> jsstring" where
  "summaryText toLocaleString config =
     js ''Industry focus: '' @ orElse (industry config) (js ''General'') @
     js '' | Monthly sessions: '' @ toLocaleString (sessions config) @
     js '' | Target CPA: $'' @ Number_toFixed0 (cpa config)"

definition stageDetailText :: "jsstring \<Rightarrow> jsstring" where
  "stageDetailText stage =
     templateText (stageDescriptions stage) @ js '' '' @ templateText (stageKpis stage)"

definition nurtureText :: "FunnelConfig \<Rightarrow> jsstring" where
  "nurtureText config =
     (if newsletter config
      then js ''Weekly insight digest activated. You will receive optimization briefs straight to your inbox.''
      else js ''Newsletter insights skipped. Add email sync to stay aligned with funnel experiments.'')"

text \<open>The body of the \<^verbatim>\<open>forEach\<close> callback: a \<^verbatim>\<open>dt\<close> and a \<^verbatim>\<open>dd\<close> per stage.\<close>

definition appendStage :: "element \<Rightarrow> jsstring \<Rightarrow> element" where
  "appendStage container stage =
     element_append (element_append container (Element (js ''dt'') (capitalize stage)))
       (Element (js ''dd'') (stageDetailText stage))"

definition renderFunnelSnapshot ::
  "(jsnum \<Rightarrow> jsstring) \<Rightarrow> FunnelConfig \<Rightarrow> document \<Rightarrow> error + document" where
  "renderFunnelSnapshot toLocaleString config doc =
     (case queryElement (js ''#funnel-plan-output'') doc of
        Inl err \<Rightarrow> Inl err
      | Inr container \<Rightarrow>
          let c0 = replaceChildren container;
              c1 = element_append c0 (Element (js ''dt'') (headingText config));
              c2 = element_append c1 (Element (js ''dd'') (summaryText toLocaleString config));
              c3 = foldl appendStage c2 (stages config);
              c4 = element_append c3 (Element (js ''dd'') (nurtureText config))
          in Inr (doc(js ''#funnel-plan-output'' \<mapsto> c4)))"

text \<open>The two nodes that one stage adds to the container.\<close>

definition stageNodes :: "jsstring \<Rightarrow> node list" where
  "stageNodes stage =
     [Element (js ''dt'') (capitalize stage), Element (js ''dd'') (stageDetailText stage)]"

section \<open>JSON\<close>

text \<open>
  The values \<^verbatim>\<open>JSON.parse\<close> can return and \<^verbatim>\<open>JSON.stringify\<close> can print. The properties
  of an object are kept in creation order; the program reads properties by name only,
  so the place ECMAScript gives to index-like keys is not observed. \<^verbatim>\<open>undefined\<close> is not
  a JSON value: where it can occur, the type is \<open>jsvalue option\<close> and it is \<open>None\<close>.
\<close>

datatype jsvalue =
    JNull
  | JBoolean bool
  | JNumber jsnum
  | JString jsstring
  | JArray "jsvalue list"
  | JObject "(jsstring \<times> jsvalue) list"

subsection \<open>\<^verbatim>\<open>JSON.stringify\<close>\<close>

text \<open>
  \<^verbatim>\<open>QuoteJSONString\<close>: the two-character escapes, \<^verbatim>\<open>\uXXXX\<close> (lower-case hexadecimal)
  for the other control characters and for a surrogate that is not part of a pair, and
  every other code unit as it is.
\<close>

definition hexChar :: "nat \<Rightarrow> nat" where
  "hexChar d = (if d < 10 then 48 + d else 87 + d)"

definition unicodeEscape :: "nat \<Rightarrow> jsstring" where
  "unicodeEscape c =
     [92, 117, hexChar (c div 4096 mod 16), hexChar (c div 256 mod 16),
      hexChar (c div 16 mod 16), hexChar (c mod 16)]"

definition isLeadingSurrogate :: "nat \<Rightarrow> bool" where
  "isLeadingSurrogate c \<longleftrightarrow> 55296 \<le> c \<and> c \<le> 56319"

definition isTrailingSurrogate :: "nat \<Rightarrow> bool" where
  "isTrailingSurrogate c \<longleftrightarrow> 56320 \<le> c \<and> c \<le> 57343"

definition escapeCodeUnit :: "nat \<Rightarrow> jsstring" where
  "escapeCodeUnit c =
     (if c = 8 then [92, 98]
      else if c = 9 then [92, 116]
      else if c = 10 then [92, 110]
      else if c = 12 then [92, 102]
      else if c = 13 then [92, 114]
      else if c = 34 then [92, 34]
      else if c = 92 then [92, 92]
      else if c < 32 \<or> isLeadingSurrogate c \<or> isTrailingSurrogate c then unicodeEscape c
      else [c])"

fun quoteChars :: "jsstring \<Rightarrow> jsstring" where
  "quoteChars [] = []"
| "quoteChars [c] = escapeCodeUnit c"
| "quoteChars (c # d # r) =
     (if isLeadingSurrogate c \<and> isTrailingSurrogate d then c # d # quoteChars r
      else escapeCodeUnit c @ quoteChars (d # r))"

definition QuoteJSONString :: "jsstring \<Rightarrow> jsstring" where
  "QuoteJSONString s = [34] @ quoteChars s @ [34]"

text \<open>
  \<^verbatim>\<open>JSON.stringify(value)\<close> with no replacer and no indentation. A number that is not
  finite prints as \<^verbatim>\<open>null\<close>.
\<close>

fun JSON_stringify :: "jsvalue \<Rightarrow> jsstring" where
  "JSON_stringify JNull = js ''null''"
| "JSON_stringify (JBoolean b) = (if b then js ''true'' else js ''false'')"
| "JSON_stringify (JNumber n) =
     (case n of Finite neg m e \<Rightarrow> Number_toString n | _ \<Rightarrow> js ''null'')"
| "JSON_stringify (JString s) = QuoteJSONString s"
| "JSON_stringify (JArray vs) =
     js ''['' @ Array_join (js '','') (map JSON_stringify vs) @ js '']''"
| "JSON_stringify (JObject ps) =
     js ''{'' @
     Array_join (js '','')
       (map (\<lambda>p. QuoteJSONString (fst p) @ js '':'' @ JSON_stringify (snd p)) ps) @
     js ''}''"

subsection \<open>\<^verbatim>\<open>JSON.parse\<close>\<close>

text \<open>
  A recursive-descent reading of the JSON grammar. Each function takes the text that is
  left and returns what it read with the rest of the text, or \<open>None\<close> where
  \<^verbatim>\<open>JSON.parse\<close> throws a \<^verbatim>\<open>SyntaxError\<close>.
\<close>

definition isJSONWhiteSpace :: "nat \<Rightarrow> bool" where
  "isJSONWhiteSpace c \<longleftrightarrow> c = 9 \<or> c = 10 \<or> c = 13 \<or> c = 32"

definition skipWs :: "jsstring \<Rightarrow> jsstring" where
  "skipWs s = dropWhile isJSONWhiteSpace s"

lemma length_skipWs: "length (skipWs s) \<le> length s"
  by (simp add: skipWs_def length_dropWhile_le)

lemma skipWs_ConsD: "skipWs s = c # r \<Longrightarrow> length r < length s"
  using length_skipWs [of s] by simp

definition unescape :: "nat \<Rightarrow> nat option" where
  "unescape e =
     (if e = 34 \<or> e = 92 \<or> e = 47 then Some e
      else if e = 98 then Some 8
      else if e = 102 then Some 12
      else if e = 110 then Some 10
      else if e = 114 then Some 13
      else if e = 116 then Some 9
      else None)"

text \<open>The characters of a string after its opening quote, up to the closing quote.\<close>

definition consChar :: "nat \<Rightarrow> (jsstring \<times> jsstring) option \<Rightarrow> (jsstring \<times> jsstring) option" where
  "consChar c res = (case res of None \<Rightarrow> None | Some (s, rest) \<Rightarrow> Some (c # s, rest))"

function parseChars :: "jsstring \<Rightarrow> (jsstring \<times> jsstring) option" where
  "parseChars s =
     (case s of
        [] \<Rightarrow> None
      | c # r \<Rightarrow>
          if c = 34 then Some ([], r)
          else if c < 32 then None
          else if c = 92 then
            (case r of
               [] \<Rightarrow> None
             | e # r' \<Rightarrow>
                 if e = 117 then
                   (if 4 \<le> length r' \<and> list_all isHexDigit (take 4 r')
                    then consChar (radixValue 16 (take 4 r')) (parseChars (drop 4 r'))
                    else None)
                 else
                   (case unescape e of
                      None \<Rightarrow> None
                    | Some u \<Rightarrow> consChar u (parseChars r')))
          else consChar c (parseChars r))"
  by pat_completeness auto
termination
  by (relation "measure length") auto

declare parseChars.simps [simp del]

text \<open>
  A JSON number: an optional minus, \<^verbatim>\<open>0\<close> or digits without a leading zero, an optional
  fraction, an optional exponent.
\<close>

definition integerPart :: "jsstring \<Rightarrow> (jsstring \<times> jsstring) option" where
  "integerPart s =
     (case s of
        [] \<Rightarrow> None
      | c # r \<Rightarrow>
          if \<not> isDecimalDigit c then None
          else if c = of_char CHR ''0'' then Some ([c], r)
          else Some (takeWhile isDecimalDigit s, dropWhile isDecimalDigit s))"

definition fractionPart :: "jsstring \<Rightarrow> (jsstring \<times> jsstring) option" where
  "fractionPart s =
     (case s of
        [] \<Rightarrow> Some ([], s)
      | c # r \<Rightarrow>
          if c = of_char CHR ''.'' then
            (if takeWhile isDecimalDigit r = [] then None
             else Some (takeWhile isDecimalDigit r, dropWhile isDecimalDigit r))
          else Some ([], s))"

definition exponentDigits :: "bool \<Rightarrow> jsstring \<Rightarrow> (int \<times> jsstring) option" where
  "exponentDigits neg s =
     (if takeWhile isDecimalDigit s = [] then None
      else Some ((if neg then - int (digitsValue (takeWhile isDecimalDigit s))
                  else int (digitsValue (takeWhile isDecimalDigit s))),
                 dropWhile isDecimalDigit s))"

definition exponentPart :: "jsstring \<Rightarrow> (int \<times> jsstring) option" where
  "exponentPart s =
     (case s of
        [] \<Rightarrow> Some (0, s)
      | c # r \<Rightarrow>
          if c = of_char CHR ''e'' \<or> c = of_char CHR ''E'' then
            (case r of
               [] \<Rightarrow> None
             | d # r' \<Rightarrow>
                 if d = of_char CHR ''-'' then exponentDigits True r'
                 else if d = of_char CHR ''+'' then exponentDigits False r'
                 else exponentDigits False r)
          else Some (0, s))"

definition parseNumber :: "jsstring \<Rightarrow> (jsnum \<times> jsstring) option" where
  "parseNumber s =
     (let neg = (take 1 s = js ''-'') in
      case integerPart (if neg then drop 1 s else s) of
        None \<Rightarrow> None
      | Some (ip, r1) \<Rightarrow>
          (case fractionPart r1 of
             None \<Rightarrow> None
           | Some (fp, r2) \<Rightarrow>
               (case exponentPart r2 of
                  None \<Rightarrow> None
                | Some (x, r3) \<Rightarrow>
                    Some (mkFinite neg (digitsValue (ip @ fp)) (x - int (length fp)), r3))))"

text \<open>
  A member of an object text defines a property: a name seen before keeps its place
  and takes the new value.
\<close>

fun defineProperty :: "(jsstring \<times> jsvalue) list \<Rightarrow> jsstring \<times> jsvalue \<Rightarrow> (jsstring \<times> jsvalue) list" where
  "defineProperty [] p = [p]"
| "defineProperty (q # ps) p = (if fst q = fst p then p # ps else q # defineProperty ps p)"

text \<open>
  \<open>parseValue\<close> reads a value, \<open>parseElements\<close> the elements of a non-empty array up
  to its \<^verbatim>\<open>]\<close>, \<open>parseMembers\<close> the members of a non-empty object up to its \<^verbatim>\<open>}\<close>.
  The tests \<open>length _ < length s\<close> are there for the termination proof: what is left
  after a value or a name has been read is always shorter (\<open>parseValue_shorter\<close>).
\<close>

function parseValue :: "jsstring \<Rightarrow> (jsvalue \<times> jsstring) option"
  and parseElements :: "jsstring \<Rightarrow> (jsvalue list \<times> jsstring) option"
  and parseMembers :: "jsstring \<Rightarrow> ((jsstring \<times> jsvalue) list \<times> jsstring) option"
where
  "parseValue s =
     (case s of
        [] \<Rightarrow> None
      | c # r \<Rightarrow>
          if c = of_char CHR ''{'' then
            (case skipWs r of
               [] \<Rightarrow> None
             | d # r' \<Rightarrow>
                 if d = of_char CHR ''}'' then Some (JObject [], r')
                 else
                   (case parseMembers (skipWs r) of
                      None \<Rightarrow> None
                    | Some (ms, rest) \<Rightarrow> Some (JObject (foldl defineProperty [] ms), rest)))
          else if c = of_char CHR ''['' then
            (case skipWs r of
               [] \<Rightarrow> None
             | d # r' \<Rightarrow>
                 if d = of_char CHR '']'' then Some (JArray [], r')
                 else
                   (case parseElements (skipWs r) of
                      None \<Rightarrow> None
                    | Some (vs, rest) \<Rightarrow> Some (JArray vs, rest)))
          else if c = 34 then
            (case parseChars r of None \<Rightarrow> None | Some (t, rest) \<Rightarrow> Some (JString t, rest))
          else if take 4 s = js ''null'' then Some (JNull, drop 4 s)
          else if take 4 s = js ''true'' then Some (JBoolean True, drop 4 s)
          else if take 5 s = js ''false'' then Some (JBoolean False, drop 5 s)
          else
            (case parseNumber s of None \<Rightarrow> None | Some (n, rest) \<Rightarrow> Some (JNumber n, rest)))"
| "parseElements s =
     (case parseValue s of
        None \<Rightarrow> None
      | Some (v, r) \<Rightarrow>
          (case skipWs r of
             [] \<Rightarrow> None
           | c # r' \<Rightarrow>
               if c = of_char CHR '']'' then Some ([v], r')
               else if c = of_char CHR '','' \<and> length r' < length s then
                 (case parseElements (skipWs r') of
                    None \<Rightarrow> None
                  | Some (vs, rest) \<Rightarrow> Some (v # vs, rest))
               else None))"
| "parseMembers s =
     (case s of
        [] \<Rightarrow> None
      | q # r \<Rightarrow>
          if q \<noteq> 34 then None
          else
            (case parseChars r of
               None \<Rightarrow> None
             | Some (k, r1) \<Rightarrow>
                 (case skipWs r1 of
                    [] \<Rightarrow> None
                  | c # r2 \<Rightarrow>
                      if c = of_char CHR '':'' \<and> length r2 < length s then
                        (case parseValue (skipWs r2) of
                           None \<Rightarrow> None
                         | Some (v, r3) \<Rightarrow>
                             (case skipWs r3 of
                                [] \<Rightarrow> None
                              | d # r4 \<Rightarrow>
                                  if d = of_char CHR ''}'' then Some ([(k, v)], r4)
                                  else if d = of_char CHR '','' \<and> length r4 < length s then
                                    (case parseMembers (skipWs r4) of
                                       None \<Rightarrow> None
                                     | Some (ms, rest) \<Rightarrow> Some ((k, v) # ms, rest))
                                  else None))
                      else None)))"
  by pat_completeness auto

termination
proof (relation "measure (\<lambda>x. case x of
      Inl s \<Rightarrow> 2 * length s
    | Inr (Inl s) \<Rightarrow> 2 * length s + 1
    | Inr (Inr s) \<Rightarrow> 2 * length s + 1)", goal_cases)
  case 1
  show ?case by simp
next
  case (2 s c r d r')
  then show ?case by (auto dest: skipWs_ConsD)
next
  case (3 s c r d r')
  then show ?case by (auto dest: skipWs_ConsD)
next
  case (4 s)
  show ?case by simp
next
  case (5 s x v r c r')
  then show ?case using length_skipWs [of r'] by auto
next
  case (6 s q r x k r1 c r2)
  then show ?case using length_skipWs [of r2] by auto
next
  case (7 s q r x k r1 c r2 y v r3 d r4)
  then show ?case using length_skipWs [of r4] by auto
qed

declare parseValue.simps [simp del] parseElements.simps [simp del] parseMembers.simps [simp del]

text \<open>\<^verbatim>\<open>JSON.parse(text)\<close>: one value, with white space around it and nothing else.\<close>

definition JSON_parse :: "jsstring \<Rightarrow> error + jsvalue" where
  "JSON_parse text =
     (case parseValue (skipWs text) of
        None \<Rightarrow> Inl SyntaxError
      | Some (v, rest) \<Rightarrow> if skipWs rest = [] then Inr v else Inl SyntaxError)"

section \<open>The persisted configuration\<close>

text \<open>
  \<^verbatim>\<open>localStorage\<close>, as far as the program uses it. Reading or writing throws a
  \<^verbatim>\<open>SecurityError\<close> when storage is not accessible to the page; a write throws a
  \<^verbatim>\<open>QuotaExceededError\<close> when key and value together exceed what the store still
  takes (\<open>quota\<close>). The console keeps the warnings the program logs.
\<close>

record storage =
  items :: "jsstring \<rightharpoonup> jsstring"
  accessible :: bool
  quota :: nat

record browser =
  localStorage :: storage
  console :: "(jsstring \<times> error) list"

definition Storage_setItem :: "jsstring \<Rightarrow> jsstring \<Rightarrow> storage \<Rightarrow> error + storage" where
  "Storage_setItem key v st =
     (if \<not> accessible st then Inl SecurityError
      else if quota st < length key + length v then Inl QuotaExceededError
      else Inr (st\<lparr>items := (items st)(key \<mapsto> v)\<rparr>))"

definition Storage_getItem :: "jsstring \<Rightarrow> storage \<Rightarrow> error + jsstring option" where
  "Storage_getItem key st =
     (if \<not> accessible st then Inl SecurityError else Inr (items st key))"

definition console_warn :: "jsstring \<Rightarrow> error \<Rightarrow> browser \<Rightarrow> browser" where
  "console_warn msg err b = b\<lparr>console := console b @ [(msg, err)]\<rparr>"

text \<open>A \<^verbatim>\<open>FunnelConfig\<close> at run time: the object \<^verbatim>\<open>readFunnelConfig\<close> builds.\<close>

definition configValue :: "FunnelConfig \<Rightarrow> jsvalue" where
  "configValue config =
     JObject
       [(js ''business'', JString (business config)),
        (js ''industry'', JString (industry config)),
        (js ''sessions'', JNumber (sessions config)),
        (js ''cpa'', JNumber (cpa config)),
        (js ''stages'', JArray (map JString (stages config))),
        (js ''newsletter'', JBoolean (newsletter config))]"

text \<open>
  \<^verbatim>\<open>persistConfig\<close>: the \<^verbatim>\<open>try\<close> block either completes or its error is caught and
  logged. The result type has the error branch every function of the model has.
\<close>

definition persistConfig :: "FunnelConfig \<Rightarrow> browser \<Rightarrow> error + browser" where
  "persistConfig config b =
     (case Storage_setItem (js ''foxytrailz23:funnel'') (JSON_stringify (configValue config))
             (localStorage b) of
        Inr st \<Rightarrow> Inr (b\<lparr>localStorage := st\<rparr>)
      | Inl err \<Rightarrow> Inr (console_warn (js ''Unable to persist funnel configuration'') err b))"

text \<open>
  \<^verbatim>\<open>loadConfig\<close>: \<^verbatim>\<open>raw ? JSON.parse(raw) : undefined\<close> inside \<^verbatim>\<open>try\<close>; \<open>null\<close> and the
  empty string are falsy. The cast to \<^verbatim>\<open>FunnelConfig\<close> checks nothing, so the result
  is whatever value the text denotes.
\<close>

definition loadConfig :: "browser \<Rightarrow> error + (jsvalue option \<times> browser)" where
  "loadConfig b =
     (case Storage_getItem (js ''foxytrailz23:funnel'') (localStorage b) of
        Inl err \<Rightarrow> Inr (None, console_warn (js ''Unable to load funnel configuration'') err b)
      | Inr None \<Rightarrow> Inr (None, b)
      | Inr (Some raw) \<Rightarrow>
          if raw = [] then Inr (None, b)
          else
            (case JSON_parse raw of
               Inl err \<Rightarrow>
                 Inr (None, console_warn (js ''Unable to load funnel configuration'') err b)
             | Inr v \<Rightarrow> Inr (Some v, b)))"

section \<open>The brief exporter\<close>

text \<open>
  The click handler works on what \<^verbatim>\<open>loadConfig\<close> returned, which need not have the
  shape of a \<^verbatim>\<open>FunnelConfig\<close>; the operations below are the ones it applies, on any
  value. \<open>None\<close> is \<^verbatim>\<open>undefined\<close>. None of the six property names is a property of a
  primitive, an array or \<^verbatim>\<open>Object.prototype\<close>, so only an object has them.
\<close>

definition getProperty :: "jsvalue \<Rightarrow> jsstring \<Rightarrow> jsvalue option" where
  "getProperty v name = (case v of JObject ps \<Rightarrow> map_of ps name | _ \<Rightarrow> None)"

fun ToBoolean :: "jsvalue option \<Rightarrow> bool" where
  "ToBoolean None = False"
| "ToBoolean (Some JNull) = False"
| "ToBoolean (Some (JBoolean b)) = b"
| "ToBoolean (Some (JNumber n)) = (case n of NaN \<Rightarrow> False | Finite neg m e \<Rightarrow> m \<noteq> 0 | _ \<Rightarrow> True)"
| "ToBoolean (Some (JString s)) = (s \<noteq> [])"
| "ToBoolean (Some (JArray vs)) = True"
| "ToBoolean (Some (JObject ps)) = True"

text \<open>\<^verbatim>\<open>ToString\<close>; an array prints its elements joined by commas, null as nothing.\<close>

fun ToString :: "jsvalue \<Rightarrow> jsstring" where
  "ToString JNull = js ''null''"
| "ToString (JBoolean b) = (if b then js ''true'' else js ''false'')"
| "ToString (JNumber n) = Number_toString n"
| "ToString (JString s) = s"
| "ToString (JArray vs) =
     Array_join (js '','') (map (\<lambda>v. if v = JNull then [] else ToString v) vs)"
| "ToString (JObject ps) = js ''[object Object]''"

definition elementText :: "jsvalue \<Rightarrow> jsstring" where
  "elementText v = (if v = JNull then [] else ToString v)"

text \<open>\<^verbatim>\<open>${v || fallback}\<close> in a template literal.\<close>

definition textOr :: "jsvalue option \<Rightarrow> jsstring \<Rightarrow> jsstring" where
  "textOr v fallback = (case v of Some x \<Rightarrow> if ToBoolean v then ToString x else fallback | None \<Rightarrow> fallback)"

text \<open>
  \<^verbatim>\<open>v.toLocaleString()\<close>: a \<^verbatim>\<open>TypeError\<close> on undefined and null, the host's number
  format on a number, the string itself on a string.
\<close>

fun value_toLocaleString :: "(jsnum \<Rightarrow> jsstring) \<Rightarrow> jsvalue \<Rightarrow> jsstring" where
  "value_toLocaleString fmt JNull = []"
| "value_toLocaleString fmt (JBoolean b) = (if b then js ''true'' else js ''false'')"
| "value_toLocaleString fmt (JNumber n) = fmt n"
| "value_toLocaleString fmt (JString s) = s"
| "value_toLocaleString fmt (JArray vs) =
     Array_join (js '','') (map (value_toLocaleString fmt) vs)"
| "value_toLocaleString fmt (JObject ps) = js ''[object Object]''"

definition call_toLocaleString :: "(jsnum \<Rightarrow> jsstring) \<Rightarrow> jsvalue option \<Rightarrow> error + jsstring" where
  "call_toLocaleString fmt v =
     (case v of
        None \<Rightarrow> Inl TypeError
      | Some JNull \<Rightarrow> Inl TypeError
      | Some x \<Rightarrow> Inr (value_toLocaleString fmt x))"

text \<open>\<^verbatim>\<open>v.toFixed(0)\<close>: only a number has the method.\<close>

definition call_toFixed0 :: "jsvalue option \<Rightarrow> error + jsstring" where
  "call_toFixed0 v = (case v of Some (JNumber n) \<Rightarrow> Inr (Number_toFixed0 n) | _ \<Rightarrow> Inl TypeError)"

text \<open>\<^verbatim>\<open>v.join(', ')\<close> and \<^verbatim>\<open>v.map(...)\<close>: only an array has the methods.\<close>

definition call_join :: "jsstring \<Rightarrow> jsvalue option \<Rightarrow> error + jsstring" where
  "call_join sep v =
     (case v of Some (JArray vs) \<Rightarrow> Inr (Array_join sep (map elementText vs)) | _ \<Rightarrow> Inl TypeError)"

text \<open>
  The callback \<^verbatim>\<open>(stage) => `${stage.toUpperCase()}: ${catalog[stage]}`\<close> over the
  elements: an element that is no string has no \<^verbatim>\<open>toUpperCase\<close>.
\<close>

fun stageLines :: "(jsstring \<Rightarrow> jsstring option) \<Rightarrow> jsvalue list \<Rightarrow> error + jsstring list" where
  "stageLines catalog [] = Inr []"
| "stageLines catalog (JString stage # vs) =
     (case stageLines catalog vs of
        Inl err \<Rightarrow> Inl err
      | Inr ls \<Rightarrow> Inr ((toUpperCase stage @ js '': '' @ templateText (catalog stage)) # ls))"
| "stageLines catalog (v # vs) = Inl TypeError"

definition call_map_stageLines ::
  "(jsstring \<Rightarrow> jsstring option) \<Rightarrow> jsvalue option \<Rightarrow> error + jsstring list" where
  "call_map_stageLines catalog v =
     (case v of Some (JArray vs) \<Rightarrow> stageLines catalog vs | _ \<Rightarrow> Inl TypeError)"

text \<open>The array literal \<^verbatim>\<open>lines\<close> of the click handler, its elements evaluated in order.\<close>

definition briefLines :: "(jsnum \<Rightarrow> jsstring) \<Rightarrow> jsvalue \<Rightarrow> error + jsstring list" where
  "briefLines toLocaleString config =
     (case call_toLocaleString toLocaleString (getProperty config (js ''sessions'')) of
        Inl err \<Rightarrow> Inl err
      | Inr sessionsText \<Rightarrow>
     (case call_toFixed0 (getProperty config (js ''cpa'')) of
        Inl err \<Rightarrow> Inl err
      | Inr cpaText \<Rightarrow>
     (case call_join (js '', '') (getProperty config (js ''stages'')) of
        Inl err \<Rightarrow> Inl err
      | Inr stagesText \<Rightarrow>
     (case call_map_stageLines stageDescriptions (getProperty config (js ''stages'')) of
        Inl err \<Rightarrow> Inl err
      | Inr strategy \<Rightarrow>
     (case call_map_stageLines stageKpis (getProperty config (js ''stages'')) of
        Inl err \<Rightarrow> Inl err
      | Inr kpis \<Rightarrow>
          Inr ([js ''FoxyTrailz23 Growth Brief'',
                js ''Business: '' @ textOr (getProperty config (js ''business'')) (js ''Not specified''),
                js ''Industry: '' @ textOr (getProperty config (js ''industry'')) (js ''Not specified''),
                js ''Monthly Sessions: '' @ sessionsText,
                js ''Target CPA: $'' @ cpaText,
                js ''Stages: '' @ stagesText,
                js ''Newsletter Sync: '' @
                  (if ToBoolean (getProperty config (js ''newsletter''))
                   then js ''Enabled'' else js ''Disabled''),
                [],
                js ''Stage Strategy:''] @
               strategy @
               [[], js ''KPIs:''] @
               kpis))))))"

record download =
  filename :: jsstring
  mimeType :: jsstring
  content :: jsstring

text \<open>\<^verbatim>\<open>loadConfig() ?? readFunnelConfig(queryElement('#analysis-form'))\<close>.\<close>

definition briefSource :: "document \<Rightarrow> jsvalue option \<Rightarrow> error + jsvalue" where
  "briefSource doc stored =
     (case (case stored of Some JNull \<Rightarrow> None | _ \<Rightarrow> stored) of
        Some config \<Rightarrow> Inr config
      | None \<Rightarrow>
          (case queryElement (js ''#analysis-form'') doc of
             Inl err \<Rightarrow> Inl err
           | Inr form \<Rightarrow> Inr (configValue (readFunnelConfig (entryList form)))))"

text \<open>The click handler that \<^verbatim>\<open>setupDownloadBrief\<close> registers.\<close>

definition downloadBriefClick ::
  "(jsnum \<Rightarrow> jsstring) \<Rightarrow> document \<Rightarrow> browser \<Rightarrow> error + (download \<times> browser)" where
  "downloadBriefClick toLocaleString doc b =
     (case loadConfig b of
        Inl err \<Rightarrow> Inl err
      | Inr (stored, b') \<Rightarrow>
          (case briefSource doc stored of
             Inl err \<Rightarrow> Inl err
           | Inr config \<Rightarrow>
               (case briefLines toLocaleString config of
                  Inl err \<Rightarrow> Inl err
                | Inr lines \<Rightarrow>
                    Inr (\<lparr>filename = js ''foxytrailz23-growth-brief.txt'',
                          mimeType = js ''text/plain'',
                          content = Array_join [10] lines\<rparr>, b'))))"

text \<open>
  \<^verbatim>\<open>setupDownloadBrief\<close>: throws when the button is missing, else registers the handler,
  which is what the model returns.
\<close>

definition setupDownloadBrief ::
  "(jsnum \<Rightarrow> jsstring) \<Rightarrow> document \<Rightarrow>
     error + (document \<Rightarrow> browser \<Rightarrow> error + (download \<times> browser))" where
  "setupDownloadBrief toLocaleString doc =
     (case queryElement (js ''#download-brief'') doc of
        Inl err \<Rightarrow> Inl err
      | Inr button \<Rightarrow> Inr (downloadBriefClick toLocaleString))"

text \<open>
  The lines of the brief for a configuration of the declared type: the array literal
  of the click handler with every property read at its declared type. A title, one line
  per field (empty text fields as \<^verbatim>\<open>Not specified\<close>, the stage list joined by commas),
  a blank line, the \<^verbatim>\<open>Stage Strategy:\<close> section with one line per stage, a blank line,
  the \<^verbatim>\<open>KPIs:\<close> section with one line per stage.
\<close>

definition growthBriefLines :: "(jsnum \<Rightarrow> jsstring) \<Rightarrow> FunnelConfig \<Rightarrow> jsstring list" where
  "growthBriefLines toLocaleString config =
     [js ''FoxyTrailz23 Growth Brief'',
      js ''Business: '' @ orElse (business config) (js ''Not specified''),
      js ''Industry: '' @ orElse (industry config) (js ''Not specified''),
      js ''Monthly Sessions: '' @ toLocaleString (sessions config),
      js ''Target CPA: $'' @ Number_toFixed0 (cpa config),
      js ''Stages: '' @ Array_join (js '', '') (stages config),
      js ''Newsletter Sync: '' @ (if newsletter config then js ''Enabled'' else js ''Disabled''),
      [],
      js ''Stage Strategy:''] @
     map (\<lambda>stage. toUpperCase stage @ js '': '' @ templateText (stageDescriptions stage))
       (stages config) @
     [[], js ''KPIs:''] @
     map (\<lambda>stage. toUpperCase stage @ js '': '' @ templateText (stageKpis stage)) (stages config)"

section \<open>Values that survive serialization\<close>

text \<open>
  A number is printed by \<^verbatim>\<open>JSON.stringify\<close> and read back unchanged when it is finite,
  in normal form, and not the negative zero (\<^verbatim>\<open>NaN\<close> and the infinities print as
  \<^verbatim>\<open>null\<close>, \<open>-0\<close> prints as \<^verbatim>\<open>0\<close>). A value is string-safe when its numbers are and
  no object in it has two properties of one name. Every string is string-safe.
\<close>

fun safeNumber :: "jsnum \<Rightarrow> bool" where
  "safeNumber (Finite neg m e) = (m mod 10 \<noteq> 0 \<or> (m = 0 \<and> \<not> neg \<and> e = 0))"
| "safeNumber n = False"

fun stringSafe :: "jsvalue \<Rightarrow> bool" where
  "stringSafe (JNumber n) = safeNumber n"
| "stringSafe (JArray vs) = list_all stringSafe vs"
| "stringSafe (JObject ps) = (distinct (map fst ps) \<and> list_all (\<lambda>p. stringSafe (snd p)) ps)"
| "stringSafe v = True"

text \<open>Notions used in the proofs about the parser.\<close>

definition delimited :: "jsstring \<Rightarrow> bool" where
  "delimited rest \<longleftrightarrow> rest = [] \<or> hd rest = 44 \<or> hd rest = 93 \<or> hd rest = 125"

definition startsValue :: "jsstring \<Rightarrow> bool" where
  "startsValue s \<longleftrightarrow> s \<noteq> [] \<and> \<not> isJSONWhiteSpace (hd s) \<and> hd s \<noteq> 93 \<and> hd s \<noteq> 125"

definition memberText :: "jsstring \<times> jsvalue \<Rightarrow> jsstring" where
  "memberText p = QuoteJSONString (fst p) @ [58] @ JSON_stringify (snd p)"

(*PROOFS*)

section \<open>Properties of the form reader\<close>

lemma formData_getAll_filter:
  "formData_getAll fd name = map snd (filter (\<lambda>e. fst e = name) fd)"
  by (induction fd name rule: formData_getAll.induct) auto

lemma formData_get_filter:
  "formData_get fd name =
     (case filter (\<lambda>e. fst e = name) fd of [] \<Rightarrow> None | e # _ \<Rightarrow> Some (snd e))"
  by (induction fd name rule: formData_get.induct) auto

lemmas num_eval =
  StringToNumber_def trim_def js_def isStrWhiteSpaceChar_def NonDecimalIntegerLiteral_def
  signedDecimal_def StrUnsignedDecimalLiteral_def isDecimalDigit_def isHexDigit_def
  digitsValue_def radixValue_def hexDigitValue_def mkFinite_def norm10.simps
  ExponentPart_opt_def SignedInteger_def

lemmas form_eval = readFunnelConfig_def numberField_def textField_def defaultStages_def Let_def

subsection \<open>Numeric fields\<close>










subsection \<open>Stage selection\<close>

text \<open>
  C2: when no entry named \<^verbatim>\<open>stage\<close> is in the form data, the stages are exactly
  awareness, consideration, conversion, in that order; otherwise they are the values of
  the \<^verbatim>\<open>stage\<close> entries, unchanged and in entry order.
\<close>

theorem readFunnelConfig_stages:
  "(js ''stage'' \<notin> fst ` set fd \<longrightarrow>
      stages (readFunnelConfig fd) =
        [js ''awareness'', js ''consideration'', js ''conversion'']) \<and>
   (js ''stage'' \<in> fst ` set fd \<longrightarrow>
      stages (readFunnelConfig fd) = map snd (filter (\<lambda>e. fst e = js ''stage'') fd))"
proof -
  let ?sel = "filter (\<lambda>e. fst e = js ''stage'') fd"
  have sel: "?sel = [] \<longleftrightarrow> js ''stage'' \<notin> fst ` set fd"
    by (force simp: filter_empty_conv)
  have "stages (readFunnelConfig fd) = (if ?sel = [] then defaultStages else map snd ?sel)"
    by (simp add: readFunnelConfig_def Let_def formData_getAll_filter)
  with sel show ?thesis
    by (auto simp: defaultStages_def)
qed

theorem readFunnelConfig_stages_witness:
  "js ''stage'' \<notin> fst ` set [(js ''business'', js ''Acme'')] \<and>
   stages (readFunnelConfig [(js ''business'', js ''Acme'')]) =
     [js ''awareness'', js ''consideration'', js ''conversion''] \<and>
   js ''stage'' \<in> fst ` set [(js ''stage'', js ''retention''), (js ''business'', js ''Acme''),
       (js ''stage'', js ''awareness'')] \<and>
   stages (readFunnelConfig [(js ''stage'', js ''retention''), (js ''business'', js ''Acme''),
       (js ''stage'', js ''awareness'')]) = [js ''retention'', js ''awareness'']"
  using readFunnelConfig_stages [of "[(js ''business'', js ''Acme'')]"]
    readFunnelConfig_stages [of "[(js ''stage'', js ''retention''), (js ''business'', js ''Acme''),
       (js ''stage'', js ''awareness'')]"]
  by (simp add: js_def)

subsection \<open>The newsletter flag\<close>

text \<open>
  C10: newsletter is true exactly when the form data has an entry named
  \<^verbatim>\<open>newsletter\<close> and the first such entry has the value \<^verbatim>\<open>on\<close>; with no such
  entry, or with any other value there, it is false.
\<close>

theorem readFunnelConfig_newsletter:
  "newsletter (readFunnelConfig fd) =
     (case filter (\<lambda>e. fst e = js ''newsletter'') fd of
        [] \<Rightarrow> False
      | e # _ \<Rightarrow> snd e = js ''on'')"
  by (simp add: readFunnelConfig_def Let_def formData_get_filter split: list.splits)

theorem readFunnelConfig_newsletter_witness:
  "newsletter (readFunnelConfig [(js ''business'', js ''Acme''), (js ''newsletter'', js ''on'')]) \<and>
   \<not> newsletter (readFunnelConfig [(js ''newsletter'', js ''true'')]) \<and>
   \<not> newsletter (readFunnelConfig [(js ''newsletter'', js ''yes'')]) \<and>
   \<not> newsletter (readFunnelConfig [(js ''business'', js ''Acme'')])"
  using readFunnelConfig_newsletter [of "[(js ''business'', js ''Acme''), (js ''newsletter'', js ''on'')]"]
    readFunnelConfig_newsletter [of "[(js ''newsletter'', js ''true'')]"]
    readFunnelConfig_newsletter [of "[(js ''newsletter'', js ''yes'')]"]
    readFunnelConfig_newsletter [of "[(js ''business'', js ''Acme'')]"]
  by (simp add: js_def)

section \<open>Properties of the snapshot renderer\<close>

lemma foldl_appendStage:
  "foldl appendStage c ss = c\<lparr>childNodes := childNodes c @ concat (map stageNodes ss)\<rparr>"
  by (induction ss arbitrary: c) (simp_all add: appendStage_def element_append_def stageNodes_def)

lemma renderFunnelSnapshot_found:
  assumes "doc (js ''#funnel-plan-output'') = Some el"
  shows "renderFunnelSnapshot fmt config doc =
    Inr (doc(js ''#funnel-plan-output'' \<mapsto> el\<lparr>childNodes :=
      Element (js ''dt'') (headingText config) #
      Element (js ''dd'') (summaryText fmt config) #
      concat (map stageNodes (stages config)) @
      [Element (js ''dd'') (nurtureText config)]\<rparr>))"
  using assms
  by (simp add: renderFunnelSnapshot_def queryElement_def Let_def foldl_appendStage
      element_append_def replaceChildren_def)


lemmas text_eval = headingText_def summaryText_def stageDetailText_def nurtureText_def
  stageNodes_def capitalize_def toUpperCase_def orElse_def templateText_def
  stageDescriptions_def stageKpis_def

lemmas print_eval = en_US_def roundHalfUp_def fractionDigits_def
  digitsOf.simps groupDigits.simps positiveToString_def

subsection \<open>Content of the snapshot\<close>

text \<open>
  C6, as stated, fails in its example: the session count is printed by
  \<^verbatim>\<open>toLocaleString()\<close>, that is, in the host's locale. On a German host the form input
  of the example renders \<^verbatim>\<open>Monthly sessions: 1.000\<close>, not \<^verbatim>\<open>1,000\<close>.
\<close>

theorem renderFunnelSnapshot_locale_counterexample:
  "renderFunnelSnapshot de_DE
     (readFunnelConfig [(js ''business'', js ''Acme''), (js ''industry'', []),
        (js ''sessions'', js ''1000''), (js ''cpa'', js ''42.7'')])
     [js ''#funnel-plan-output'' \<mapsto> \<lparr>childNodes = [], entryList = []\<rparr>] =
   Inr [js ''#funnel-plan-output'' \<mapsto> \<lparr>childNodes =
     [Element (js ''dt'') (js ''Acme funnel overview''),
      Element (js ''dd'') (js ''Industry focus: General | Monthly sessions: 1.000 | Target CPA: $43''),
      Element (js ''dt'') (js ''Awareness''),
      Element (js ''dd'') (js ''Build omnichannel reach with paid social, influencer partnerships, and hero content hubs. Primary KPIs: reach, CPM efficiency, and top-of-funnel CTR.''),
      Element (js ''dt'') (js ''Consideration''),
      Element (js ''dd'') (js ''Drive mid-funnel intent with progressive profiling, comparison guides, and nurture sequences. Primary KPIs: MQL velocity, content engagement depth, and remarketing lift.''),
      Element (js ''dt'') (js ''Conversion''),
      Element (js ''dd'') (js ''Optimize acquisition moments with CRO testing, sales enablement, and automated onboarding. Primary KPIs: CAC trendline, pipeline velocity, and on-site conversion rate.''),
      Element (js ''dd'') (js ''Newsletter insights skipped. Add email sync to stay aligned with funnel experiments.'')],
     entryList = []\<rparr>] \<and>
   js ''Industry focus: General | Monthly sessions: 1.000 | Target CPA: $43'' \<noteq>
   js ''Industry focus: General | Monthly sessions: 1,000 | Target CPA: $43''"
  by (simp add: renderFunnelSnapshot_found [of _ "\<lparr>childNodes = [], entryList = []\<rparr>"]
      form_eval num_eval text_eval print_eval de_DE_def)

text \<open>
  C6, amended: when the container exists, \<^verbatim>\<open>renderFunnelSnapshot\<close> replaces its children
  by the heading, then a summary line made of the industry (\<^verbatim>\<open>General\<close> if empty), the
  session count as the host's locale formats it, and the target CPA printed by
  \<^verbatim>\<open>toFixed(0)\<close>, then for each stage of \<open>stages config\<close>, in order, its capitalized
  label and its description and KPI text joined by a space, then the closing line. With
  the \<^verbatim>\<open>en-US\<close> number format the form input business Acme, industry empty, sessions
  1000, cpa 42.7, no stage, no newsletter renders the summary
  \<^verbatim>\<open>Industry focus: General | Monthly sessions: 1,000 | Target CPA: $43\<close>, the three
  default stages and the \<^verbatim>\<open>skipped\<close> closing line.
\<close>

theorem renderFunnelSnapshot_content:
  "doc (js ''#funnel-plan-output'') = Some el \<longrightarrow>
     renderFunnelSnapshot fmt config doc =
       Inr (doc(js ''#funnel-plan-output'' \<mapsto> el\<lparr>childNodes :=
         [Element (js ''dt'')
            (orElse (business config) (js ''Your brand'') @ js '' funnel overview''),
          Element (js ''dd'')
            (js ''Industry focus: '' @ orElse (industry config) (js ''General'') @
             js '' | Monthly sessions: '' @ fmt (sessions config) @
             js '' | Target CPA: $'' @ Number_toFixed0 (cpa config))] @
         concat (map (\<lambda>stage.
           [Element (js ''dt'') (capitalize stage),
            Element (js ''dd'')
              (templateText (stageDescriptions stage) @ js '' '' @
               templateText (stageKpis stage))]) (stages config)) @
         [Element (js ''dd'') (nurtureText config)]\<rparr>)) \<and>
     renderFunnelSnapshot en_US
       (readFunnelConfig [(js ''business'', js ''Acme''), (js ''industry'', []),
          (js ''sessions'', js ''1000''), (js ''cpa'', js ''42.7'')]) doc =
       Inr (doc(js ''#funnel-plan-output'' \<mapsto> el\<lparr>childNodes :=
         [Element (js ''dt'') (js ''Acme funnel overview''),
          Element (js ''dd'') (js ''Industry focus: General | Monthly sessions: 1,000 | Target CPA: $43''),
          Element (js ''dt'') (js ''Awareness''),
          Element (js ''dd'') (js ''Build omnichannel reach with paid social, influencer partnerships, and hero content hubs. Primary KPIs: reach, CPM efficiency, and top-of-funnel CTR.''),
          Element (js ''dt'') (js ''Consideration''),
          Element (js ''dd'') (js ''Drive mid-funnel intent with progressive profiling, comparison guides, and nurture sequences. Primary KPIs: MQL velocity, content engagement depth, and remarketing lift.''),
          Element (js ''dt'') (js ''Conversion''),
          Element (js ''dd'') (js ''Optimize acquisition moments with CRO testing, sales enablement, and automated onboarding. Primary KPIs: CAC trendline, pipeline velocity, and on-site conversion rate.''),
          Element (js ''dd'') (js ''Newsletter insights skipped. Add email sync to stay aligned with funnel experiments.'')]\<rparr>))"
proof (intro impI conjI)
  assume el: "doc (js ''#funnel-plan-output'') = Some el"
  show "renderFunnelSnapshot fmt config doc =
       Inr (doc(js ''#funnel-plan-output'' \<mapsto> el\<lparr>childNodes :=
         [Element (js ''dt'')
            (orElse (business config) (js ''Your brand'') @ js '' funnel overview''),
          Element (js ''dd'')
            (js ''Industry focus: '' @ orElse (industry config) (js ''General'') @
             js '' | Monthly sessions: '' @ fmt (sessions config) @
             js '' | Target CPA: $'' @ Number_toFixed0 (cpa config))] @
         concat (map (\<lambda>stage.
           [Element (js ''dt'') (capitalize stage),
            Element (js ''dd'')
              (templateText (stageDescriptions stage) @ js '' '' @
               templateText (stageKpis stage))]) (stages config)) @
         [Element (js ''dd'') (nurtureText config)]\<rparr>))"
    unfolding renderFunnelSnapshot_found [of doc el fmt config, OF el]
    by (simp add: headingText_def summaryText_def stageDetailText_def stageNodes_def [abs_def])
  show "renderFunnelSnapshot en_US
       (readFunnelConfig [(js ''business'', js ''Acme''), (js ''industry'', []),
          (js ''sessions'', js ''1000''), (js ''cpa'', js ''42.7'')]) doc =
       Inr (doc(js ''#funnel-plan-output'' \<mapsto> el\<lparr>childNodes :=
         [Element (js ''dt'') (js ''Acme funnel overview''),
          Element (js ''dd'') (js ''Industry focus: General | Monthly sessions: 1,000 | Target CPA: $43''),
          Element (js ''dt'') (js ''Awareness''),
          Element (js ''dd'') (js ''Build omnichannel reach with paid social, influencer partnerships, and hero content hubs. Primary KPIs: reach, CPM efficiency, and top-of-funnel CTR.''),
          Element (js ''dt'') (js ''Consideration''),
          Element (js ''dd'') (js ''Drive mid-funnel intent with progressive profiling, comparison guides, and nurture sequences. Primary KPIs: MQL velocity, content engagement depth, and remarketing lift.''),
          Element (js ''dt'') (js ''Conversion''),
          Element (js ''dd'') (js ''Optimize acquisition moments with CRO testing, sales enablement, and automated onboarding. Primary KPIs: CAC trendline, pipeline velocity, and on-site conversion rate.''),
          Element (js ''dd'') (js ''Newsletter insights skipped. Add email sync to stay aligned with funnel experiments.'')]\<rparr>))"
    unfolding renderFunnelSnapshot_found [of doc el en_US, OF el]
    by (simp add: form_eval num_eval text_eval print_eval)
qed

theorem renderFunnelSnapshot_content_witness:
  "[js ''#funnel-plan-output'' \<mapsto> \<lparr>childNodes = [Element (js ''p'') (js ''old'')], entryList = []\<rparr>]
     (js ''#funnel-plan-output'') =
     Some \<lparr>childNodes = [Element (js ''p'') (js ''old'')], entryList = []\<rparr> \<and>
   renderFunnelSnapshot en_US
     \<lparr>business = [], industry = js ''Retail'', sessions = Finite False 25 2, cpa = Finite False 1249 (- 2),
      stages = [js ''retention''], newsletter = True\<rparr>
     [js ''#funnel-plan-output'' \<mapsto> \<lparr>childNodes = [Element (js ''p'') (js ''old'')], entryList = []\<rparr>] =
   Inr [js ''#funnel-plan-output'' \<mapsto> \<lparr>childNodes =
     [Element (js ''dt'') (js ''Your brand funnel overview''),
      Element (js ''dd'') (js ''Industry focus: Retail | Monthly sessions: 2,500 | Target CPA: $12''),
      Element (js ''dt'') (js ''Retention''),
      Element (js ''dd'') (js ''Expand lifetime value through loyalty programs, lifecycle messaging, and advocacy campaigns. Primary KPIs: repeat purchase rate, churn reduction, and NPS elevation.''),
      Element (js ''dd'') (js ''Weekly insight digest activated. You will receive optimization briefs straight to your inbox.'')],
     entryList = []\<rparr>]"
  using renderFunnelSnapshot_content [of
    "[js ''#funnel-plan-output'' \<mapsto> \<lparr>childNodes = [Element (js ''p'') (js ''old'')], entryList = []\<rparr>]"
    "\<lparr>childNodes = [Element (js ''p'') (js ''old'')], entryList = []\<rparr>" en_US
    "\<lparr>business = [], industry = js ''Retail'', sessions = Finite False 25 2, cpa = Finite False 1249 (- 2),
      stages = [js ''retention''], newsletter = True\<rparr>"]
  by (simp add: text_eval print_eval js_def)

subsection \<open>The newsletter flag changes the closing line only\<close>

text \<open>
  C7: two configurations that differ only in the newsletter flag render the same
  nodes up to the last one; the last node of each is its own closing line.
\<close>

theorem renderFunnelSnapshot_newsletter_frame:
  "doc (js ''#funnel-plan-output'') = Some el \<longrightarrow>
     (\<exists>common.
        renderFunnelSnapshot fmt config doc =
          Inr (doc(js ''#funnel-plan-output'' \<mapsto>
            el\<lparr>childNodes := common @ [Element (js ''dd'') (nurtureText config)]\<rparr>)) \<and>
        renderFunnelSnapshot fmt (config\<lparr>newsletter := flag\<rparr>) doc =
          Inr (doc(js ''#funnel-plan-output'' \<mapsto>
            el\<lparr>childNodes := common @
              [Element (js ''dd'') (nurtureText (config\<lparr>newsletter := flag\<rparr>))]\<rparr>)))"
proof
  assume el: "doc (js ''#funnel-plan-output'') = Some el"
  let ?common = "Element (js ''dt'') (headingText config) #
      Element (js ''dd'') (summaryText fmt config) # concat (map stageNodes (stages config))"
  have "renderFunnelSnapshot fmt config doc =
      Inr (doc(js ''#funnel-plan-output'' \<mapsto>
            el\<lparr>childNodes := ?common @ [Element (js ''dd'') (nurtureText config)]\<rparr>))"
    unfolding renderFunnelSnapshot_found [of doc el fmt config, OF el] by simp
  moreover have "renderFunnelSnapshot fmt (config\<lparr>newsletter := flag\<rparr>) doc =
      Inr (doc(js ''#funnel-plan-output'' \<mapsto>
            el\<lparr>childNodes := ?common @
              [Element (js ''dd'') (nurtureText (config\<lparr>newsletter := flag\<rparr>))]\<rparr>))"
    unfolding renderFunnelSnapshot_found [of doc el fmt "config\<lparr>newsletter := flag\<rparr>", OF el]
    by (simp add: headingText_def summaryText_def)
  ultimately show "\<exists>common.
        renderFunnelSnapshot fmt config doc =
          Inr (doc(js ''#funnel-plan-output'' \<mapsto>
            el\<lparr>childNodes := common @ [Element (js ''dd'') (nurtureText config)]\<rparr>)) \<and>
        renderFunnelSnapshot fmt (config\<lparr>newsletter := flag\<rparr>) doc =
          Inr (doc(js ''#funnel-plan-output'' \<mapsto>
            el\<lparr>childNodes := common @
              [Element (js ''dd'') (nurtureText (config\<lparr>newsletter := flag\<rparr>))]\<rparr>))"
    by blast
qed

theorem renderFunnelSnapshot_newsletter_frame_witness:
  "[js ''#funnel-plan-output'' \<mapsto> \<lparr>childNodes = [], entryList = []\<rparr>]
     (js ''#funnel-plan-output'') = Some \<lparr>childNodes = [], entryList = []\<rparr> \<and>
   (\<exists>common.
      renderFunnelSnapshot en_US
        \<lparr>business = js ''Acme'', industry = [], sessions = Finite False 1 3,
         cpa = Finite False 427 (- 1), stages = [js ''retention''], newsletter = False\<rparr>
        [js ''#funnel-plan-output'' \<mapsto> \<lparr>childNodes = [], entryList = []\<rparr>] =
      Inr [js ''#funnel-plan-output'' \<mapsto> \<lparr>childNodes = common @
        [Element (js ''dd'') (js ''Newsletter insights skipped. Add email sync to stay aligned with funnel experiments.'')],
        entryList = []\<rparr>] \<and>
      renderFunnelSnapshot en_US
        \<lparr>business = js ''Acme'', industry = [], sessions = Finite False 1 3,
         cpa = Finite False 427 (- 1), stages = [js ''retention''], newsletter = True\<rparr>
        [js ''#funnel-plan-output'' \<mapsto> \<lparr>childNodes = [], entryList = []\<rparr>] =
      Inr [js ''#funnel-plan-output'' \<mapsto> \<lparr>childNodes = common @
        [Element (js ''dd'') (js ''Weekly insight digest activated. You will receive optimization briefs straight to your inbox.'')],
        entryList = []\<rparr>])"
  using renderFunnelSnapshot_newsletter_frame [of
    "[js ''#funnel-plan-output'' \<mapsto> \<lparr>childNodes = [], entryList = []\<rparr>]"
    "\<lparr>childNodes = [], entryList = []\<rparr>" en_US
    "\<lparr>business = js ''Acme'', industry = [], sessions = Finite False 1 3,
      cpa = Finite False 427 (- 1), stages = [js ''retention''], newsletter = False\<rparr>" True]
  by (simp add: nurtureText_def)

subsection \<open>Idempotence\<close>



section \<open>Properties of the JSON functions\<close>

subsection \<open>What is left after a value is shorter\<close>

lemma consChar_SomeD:
  "consChar c res = Some (t, r) \<Longrightarrow> \<exists>t'. res = Some (t', r)"
  by (auto simp: consChar_def split: option.splits)

lemma parseChars_shorter: "parseChars s = Some (t, r) \<Longrightarrow> length r < length s"
proof (induction s arbitrary: t rule: parseChars.induct)
  case (1 s)
  show ?case
  proof (cases s)
    case Nil
    with "1.prems" show ?thesis by (subst (asm) parseChars.simps) simp
  next
    case (Cons c r0)
    note s = Cons
    from "1.prems" have p: "(if c = 34 then Some ([], r0)
          else if c < 32 then None
          else if c = 92 then
            (case r0 of
               [] \<Rightarrow> None
             | e # r' \<Rightarrow>
                 if e = 117 then
                   (if 4 \<le> length r' \<and> list_all isHexDigit (take 4 r')
                    then consChar (radixValue 16 (take 4 r')) (parseChars (drop 4 r'))
                    else None)
                 else
                   (case unescape e of
                      None \<Rightarrow> None
                    | Some u \<Rightarrow> consChar u (parseChars r')))
          else consChar c (parseChars r0)) = Some (t, r)"
      by (subst (asm) parseChars.simps) (simp add: s)
    show ?thesis
    proof (cases "c = 34")
      case True
      with p s show ?thesis by simp
    next
      case c34: False
      show ?thesis
      proof (cases "c = 92")
        case False
        with p c34 obtain t' where "parseChars r0 = Some (t', r)"
          by (auto split: if_splits dest: consChar_SomeD)
        with "1.IH"(3) [OF s c34 _ False] p c34 False s show ?thesis
          by (fastforce split: if_splits)
      next
        case True
        with p c34 obtain e r' where r0: "r0 = e # r'" by (cases r0) (auto split: if_splits)
        show ?thesis
        proof (cases "e = 117")
          case e: True
          with p c34 True r0 obtain t' where "parseChars (drop 4 r') = Some (t', r)"
            "4 \<le> length r' \<and> list_all isHexDigit (take 4 r')"
            by (auto split: if_splits dest: consChar_SomeD)
          with "1.IH"(1) [OF s c34 _ True r0 e] True show ?thesis
            by (simp add: s r0)
        next
          case e: False
          with p c34 True r0 obtain u t' where u: "unescape e = Some u"
            and pr: "parseChars r' = Some (t', r)"
            by (auto split: if_splits option.splits dest: consChar_SomeD)
          have "\<not> c < 32" using True by simp
          from "1.IH"(2) [OF s c34 this True r0 e u pr] show ?thesis
            by (simp add: s r0)
        qed
      qed
    qed
  qed
qed

lemma integerPart_shorter: "integerPart s = Some (ip, r) \<Longrightarrow> length r < length s"
  by (cases s) (auto simp: integerPart_def le_imp_less_Suc length_dropWhile_le split: if_splits)

lemma fractionPart_shorter: "fractionPart s = Some (fp, r) \<Longrightarrow> length r \<le> length s"
  by (cases s) (auto simp: fractionPart_def le_SucI length_dropWhile_le split: if_splits)

lemma exponentDigits_shorter: "exponentDigits neg s = Some (x, r) \<Longrightarrow> length r \<le> length s"
  by (auto simp: exponentDigits_def length_dropWhile_le split: if_splits)

lemma exponentPart_shorter: "exponentPart s = Some (x, r) \<Longrightarrow> length r \<le> length s"
  by (cases s; cases "tl s")
    (auto simp: exponentPart_def split: if_splits dest!: exponentDigits_shorter)

lemma parseNumber_shorter: "parseNumber s = Some (n, r) \<Longrightarrow> length r < length s"
proof -
  assume "parseNumber s = Some (n, r)"
  then obtain ip r1 fp r2 x where
    1: "integerPart (if take 1 s = js ''-'' then drop 1 s else s) = Some (ip, r1)" and
    2: "fractionPart r1 = Some (fp, r2)" and 3: "exponentPart r2 = Some (x, r)"
    by (auto simp: parseNumber_def Let_def split: option.splits)
  from integerPart_shorter [OF 1] have "length r1 < length s" by (auto split: if_splits)
  with fractionPart_shorter [OF 2] exponentPart_shorter [OF 3] show ?thesis by simp
qed


lemma take_eq_length: "take n s = t \<Longrightarrow> length t = n \<Longrightarrow> 0 < n \<Longrightarrow> length (drop n s) < length s"
  by (cases "n \<le> length s") auto

lemma skipWs_less: "skipWs s = c # r \<Longrightarrow> length r < length s"
  by (rule skipWs_ConsD)

lemma parse_shorter:
  "parseValue s1 = Some (v, r1) \<Longrightarrow> length r1 < length s1"
  "parseElements s2 = Some (vs, r2) \<Longrightarrow> length r2 < length s2"
  "parseMembers s3 = Some (ms, r3) \<Longrightarrow> length r3 < length s3"
proof (induction s1 and s2 and s3 arbitrary: v r1 and vs r2 and ms r3
    rule: parseValue_parseElements_parseMembers.induct)
  case (1 s)
  show ?case
  proof (cases s)
    case Nil
    with "1.prems" show ?thesis by (subst (asm) parseValue.simps) simp
  next
    case (Cons c r)
    note p = "1.prems" [unfolded parseValue.simps [of s], unfolded Cons list.case]
    note ih = "1.IH" [OF Cons]
    consider (obj) "c = 123" | (arr) "c \<noteq> 123" "c = 91" | (str) "c \<noteq> 123" "c \<noteq> 91" "c = 34"
      | (lit) "c \<noteq> 123" "c \<noteq> 91" "c \<noteq> 34" by blast
    then show ?thesis
    proof cases
      case obj
      show ?thesis
      proof (cases "skipWs r")
        case Nil
        with p obj show ?thesis by simp
      next
        case (Cons d r')
        note sk = Cons
        show ?thesis
        proof (cases "d = 125")
          case True
          with p obj sk skipWs_less [OF sk] show ?thesis by (auto simp: \<open>s = c # r\<close>)
        next
          case False
          with p obj sk obtain ms where "parseMembers (skipWs r) = Some (ms, r1)"
            by (auto split: option.splits)
          moreover have "c = of_char CHR ''{''" "d \<noteq> of_char CHR ''}''"
            using obj False by simp_all
          ultimately have "length r1 < length (skipWs r)"
            using ih(1) sk by blast
          with length_skipWs [of r] show ?thesis
            by (simp add: \<open>s = c # r\<close>)
        qed
      qed
    next
      case arr
      show ?thesis
      proof (cases "skipWs r")
        case Nil
        with p arr show ?thesis by simp
      next
        case (Cons d r')
        note sk = Cons
        show ?thesis
        proof (cases "d = 93")
          case True
          with p arr sk skipWs_less [OF sk] show ?thesis by (auto simp: \<open>s = c # r\<close>)
        next
          case False
          with p arr sk obtain es where "parseElements (skipWs r) = Some (es, r1)"
            by (auto split: option.splits)
          moreover have "c \<noteq> of_char CHR ''{''" "c = of_char CHR ''[''" "d \<noteq> of_char CHR '']''"
            using arr False by simp_all
          ultimately have "length r1 < length (skipWs r)"
            using ih(2) sk by blast
          with length_skipWs [of r] show ?thesis
            by (simp add: \<open>s = c # r\<close>)
        qed
      qed
    next
      case str
      with p obtain t where "parseChars r = Some (t, r1)" by (auto split: option.splits)
      from parseChars_shorter [OF this] show ?thesis by (simp add: \<open>s = c # r\<close>)
    next
      case lit
      with p have "take 4 (c # r) = js ''null'' \<and> r1 = drop 4 (c # r) \<or>
          take 4 (c # r) = js ''true'' \<and> r1 = drop 4 (c # r) \<or>
          take 5 (c # r) = js ''false'' \<and> r1 = drop 5 (c # r) \<or>
          (\<exists>n. parseNumber (c # r) = Some (n, r1))"
        by (auto split: if_splits option.splits)
      then show ?thesis
        using take_eq_length [of 4 "c # r" "js ''null''"] take_eq_length [of 4 "c # r" "js ''true''"]
          take_eq_length [of 5 "c # r" "js ''false''"]
        by (auto simp: \<open>s = c # r\<close> js_def dest: parseNumber_shorter)
    qed
  qed
next
  case (2 s)
  note p = "2.prems" [unfolded parseElements.simps [of s]]
  from p obtain v r where pv: "parseValue s = Some (v, r)" by (auto split: option.splits)
  note l1 = "2.IH"(1) [OF pv]
  from p pv obtain c r' where sk: "skipWs r = c # r'" by (cases "skipWs r") auto
  note l2 = skipWs_less [OF sk]
  show ?case
  proof (cases "c = 93")
    case True
    with p pv sk l1 l2 show ?thesis by auto
  next
    case False
    with p pv sk have c: "c = 44 \<and> length r' < length s" by (auto split: if_splits)
    with p pv sk False obtain es where pe: "parseElements (skipWs r') = Some (es, r2)"
      by (auto split: option.splits)
    have "c \<noteq> of_char CHR '']''" "c = of_char CHR '','' \<and> length r' < length s"
      using False c by simp_all
    with "2.IH"(2) pv sk pe have "length r2 < length (skipWs r')" by blast
    with length_skipWs [of r'] c show ?thesis by simp
  qed
next
  case (3 s)
  note p = "3.prems" [unfolded parseMembers.simps [of s]]
  from p obtain q r where s: "s = q # r" by (cases s) auto
  from p s have q: "\<not> q \<noteq> 34" by (auto split: if_splits)
  from p s q obtain k ra where pc: "parseChars r = Some (k, ra)" by (auto split: option.splits)
  from p s q pc obtain c rb where sk1: "skipWs ra = c # rb" by (cases "skipWs ra") auto
  from p s q pc sk1 have c: "c = 58 \<and> length rb < length s" by (auto split: if_splits)
  from p s q pc sk1 c obtain v rc where pv: "parseValue (skipWs rb) = Some (v, rc)"
    by (auto split: option.splits)
  have c': "c = of_char CHR '':'' \<and> length rb < length s" using c by simp
  from "3.IH"(1) s q pc sk1 c' pv have l1: "length rc < length (skipWs rb)" by blast
  from p s q pc sk1 c pv obtain d rd where sk2: "skipWs rc = d # rd" by (cases "skipWs rc") auto
  have l2: "length rd < length s"
    using skipWs_less [OF sk2] l1 length_skipWs [of rb] c by simp
  show ?case
  proof (cases "d = 125")
    case True
    with p s q pc sk1 c pv sk2 l2 show ?thesis by auto
  next
    case False
    with p s q pc sk1 c pv sk2 have d: "d = 44 \<and> length rd < length s" by (auto split: if_splits)
    with p s q pc sk1 c pv sk2 False obtain ms' where pm: "parseMembers (skipWs rd) = Some (ms', r3)"
      by (auto split: option.splits)
    have "d \<noteq> of_char CHR ''}''" "d = of_char CHR '','' \<and> length rd < length s"
      using False d by simp_all
    with "3.IH"(2) s q pc sk1 c' pv sk2 pm have "length r3 < length (skipWs rd)" by blast
    with length_skipWs [of rd] d show ?thesis by simp
  qed
qed

lemmas parseValue_shorter = parse_shorter(1)

subsection \<open>Digits and numbers\<close>

lemma radixValue_foldl:
  "foldl (\<lambda>a c. b * a + hexDigitValue c) acc ds = acc * b ^ length ds + radixValue b ds"
proof (induction ds arbitrary: acc)
  case Nil
  then show ?case by (simp add: radixValue_def)
next
  case (Cons d ds)
  have "foldl (\<lambda>a c. b * a + hexDigitValue c) acc (d # ds) =
      (b * acc + hexDigitValue d) * b ^ length ds + radixValue b ds"
    by (simp add: Cons.IH)
  moreover have "radixValue b (d # ds) = hexDigitValue d * b ^ length ds + radixValue b ds"
    using Cons.IH [of "hexDigitValue d"] by (simp add: radixValue_def)
  ultimately show ?case by (simp add: algebra_simps)
qed

lemma radixValue_append:
  "radixValue b (xs @ ys) = radixValue b xs * b ^ length ys + radixValue b ys"
  by (simp add: radixValue_def radixValue_foldl [symmetric, unfolded radixValue_def])

lemma digitsValue_append:
  "digitsValue (xs @ ys) = digitsValue xs * 10 ^ length ys + digitsValue ys"
  by (simp add: digitsValue_def radixValue_append)

lemma digitsValue_Nil [simp]: "digitsValue [] = 0"
  by (simp add: digitsValue_def radixValue_def)

lemma digitsValue_single: "digitsValue [c] = hexDigitValue c"
  by (simp add: digitsValue_def radixValue_def)

lemma digitsValue_zeros [simp]: "digitsValue (replicate j 48) = 0"
  by (induction j) (simp_all add: digitsValue_append [of "[48]", simplified] digitsValue_single hexDigitValue_def)

lemma isDecimalDigit_digit: "d < 10 \<Longrightarrow> isDecimalDigit (48 + d)"
  by (simp add: isDecimalDigit_def)

lemma digitsOf_digits: "list_all isDecimalDigit (digitsOf n)"
  by (induction n rule: digitsOf.induct) (subst digitsOf.simps, simp add: isDecimalDigit_digit)

lemma digitsOf_nonempty [simp]: "digitsOf n \<noteq> []"
  by (subst digitsOf.simps) simp

lemma hd_digitsOf: "0 < n \<Longrightarrow> hd (digitsOf n) \<noteq> 48"
proof (induction n rule: digitsOf.induct)
  case (1 n)
  show ?case
  proof (cases "n < 10")
    case True
    with 1 show ?thesis by (subst digitsOf.simps) simp
  next
    case False
    with 1 have "hd (digitsOf (n div 10)) \<noteq> 48" by simp
    with False show ?thesis by (subst digitsOf.simps) simp
  qed
qed

lemma digitsValue_digitsOf [simp]: "digitsValue (digitsOf n) = n"
proof (induction n rule: digitsOf.induct)
  case (1 n)
  show ?case
  proof (cases "n < 10")
    case True
    then show ?thesis
      by (subst digitsOf.simps) (simp add: digitsValue_single hexDigitValue_def)
  next
    case False
    with 1 have "digitsValue (digitsOf (n div 10)) = n div 10" by simp
    with False show ?thesis
      by (subst digitsOf.simps) (simp add: digitsValue_append digitsValue_single hexDigitValue_def)
  qed
qed

lemma norm10_normal: "m mod 10 \<noteq> 0 \<Longrightarrow> norm10 m e = (m, e)"
  by (subst norm10.simps) auto

lemma norm10_zero [simp]: "norm10 0 e = (0, 0)"
  by (subst norm10.simps) simp

lemma norm10_shift: "0 < m \<Longrightarrow> norm10 (m * 10 ^ j) e = norm10 m (e + int j)"
proof (induction j arbitrary: e)
  case 0
  then show ?case by simp
next
  case (Suc j)
  have "norm10 (m * 10 ^ Suc j) e = norm10 (m * 10 ^ j) (e + 1)"
    using Suc.prems by (subst norm10.simps) simp
  with Suc show ?case by (simp add: algebra_simps)
qed

lemma takeWhile_digits_append:
  assumes "list_all isDecimalDigit ds" "rest = [] \<or> \<not> isDecimalDigit (hd rest)"
  shows "takeWhile isDecimalDigit (ds @ rest) = ds" "dropWhile isDecimalDigit (ds @ rest) = rest"
  using assms by (induction ds) (auto simp: takeWhile_eq_Nil_iff neq_Nil_conv dropWhile_eq_self_iff)


lemma integerPart_digits:
  assumes "list_all isDecimalDigit ip" "ip \<noteq> []" "hd ip = 48 \<longrightarrow> ip = [48]"
    and "tail = [] \<or> \<not> isDecimalDigit (hd tail)"
  shows "integerPart (ip @ tail) = Some (ip, tail)"
proof -
  from assms obtain c r where ipc: "ip = c # r" by (cases ip) auto
  with assms have c: "isDecimalDigit c" and r: "list_all isDecimalDigit r" by auto
  show ?thesis
  proof (cases "c = 48")
    case True
    with assms(3) ipc have "r = []" by simp
    with True c show ?thesis by (simp add: integerPart_def ipc)
  next
    case False
    with c takeWhile_digits_append [OF assms(1) assms(4)] show ?thesis
      by (simp add: integerPart_def ipc)
  qed
qed

lemma fractionPart_none:
  "tail = [] \<or> hd tail \<noteq> 46 \<Longrightarrow> fractionPart tail = Some ([], tail)"
  by (cases tail) (auto simp: fractionPart_def)

lemma fractionPart_digits:
  assumes "list_all isDecimalDigit fp" "fp \<noteq> []" "tail = [] \<or> \<not> isDecimalDigit (hd tail)"
  shows "fractionPart (46 # fp @ tail) = Some (fp, tail)"
  using takeWhile_digits_append [OF assms(1) assms(3)] assms(2)
  by (simp add: fractionPart_def)

lemma exponentPart_none:
  "tail = [] \<or> (hd tail \<noteq> 101 \<and> hd tail \<noteq> 69) \<Longrightarrow> exponentPart tail = Some (0, tail)"
  by (cases tail) (auto simp: exponentPart_def)

lemma exponentPart_signed:
  assumes "list_all isDecimalDigit xs" "xs \<noteq> []" "tail = [] \<or> \<not> isDecimalDigit (hd tail)"
  shows "exponentPart (101 # 43 # xs @ tail) = Some (int (digitsValue xs), tail)"
    and "exponentPart (101 # 45 # xs @ tail) = Some (- int (digitsValue xs), tail)"
  using takeWhile_digits_append [OF assms(1) assms(3)] assms(2)
  by (simp_all add: exponentPart_def exponentDigits_def)

lemma parseNumber_parts:
  assumes "integerPart body = Some (ip, r1)" "fractionPart r1 = Some (fp, r2)"
    "exponentPart r2 = Some (x, r3)" "body \<noteq> [] \<longrightarrow> hd body \<noteq> 45"
  shows "parseNumber body = Some (mkFinite False (digitsValue (ip @ fp)) (x - int (length fp)), r3)"
    and "parseNumber (45 # body) = Some (mkFinite True (digitsValue (ip @ fp)) (x - int (length fp)), r3)"
  using assms by (cases body; simp add: parseNumber_def js_def)+


lemma delimited_facts:
  assumes "delimited rest"
  shows "rest = [] \<or> \<not> isDecimalDigit (hd rest)" "rest = [] \<or> hd rest \<noteq> 46"
    "rest = [] \<or> (hd rest \<noteq> 101 \<and> hd rest \<noteq> 69)"
  using assms by (auto simp: delimited_def isDecimalDigit_def)

lemma not_digit_chars: "\<not> isDecimalDigit 46" "\<not> isDecimalDigit 101" "\<not> isDecimalDigit 69"
  "\<not> isDecimalDigit 45" "\<not> isDecimalDigit 43" "isDecimalDigit 48"
  by (simp_all add: isDecimalDigit_def)

lemma mkFinite_normal: "m mod 10 \<noteq> 0 \<Longrightarrow> mkFinite neg m e = Finite neg m e"
  by (simp add: mkFinite_def norm10_normal)

lemma mkFinite_shift:
  "m mod 10 \<noteq> 0 \<Longrightarrow> mkFinite neg (m * 10 ^ j) 0 = Finite neg m (int j)"
  by (cases "m = 0") (simp_all add: mkFinite_def norm10_shift norm10_normal)

lemma parseNumber_positiveToString:
  assumes m: "m mod 10 \<noteq> 0" and rest: "delimited rest"
  shows "parseNumber (positiveToString m e @ rest) = Some (Finite False m e, rest) \<and>
         parseNumber (45 # positiveToString m e @ rest) = Some (Finite True m e, rest)"
proof -
  let ?ds = "digitsOf m"
  let ?k = "int (length ?ds)"
  let ?n = "?k + e"
  from m have m0: "0 < m" by (cases "m = 0") auto
  have ds: "list_all isDecimalDigit ?ds" by (rule digitsOf_digits)
  have hd: "hd ?ds \<noteq> 48" using m0 by (rule hd_digitsOf)
  have hd45: "hd ?ds \<noteq> 45"
    using ds digitsOf_nonempty [of m] by (cases ?ds) (auto simp: isDecimalDigit_def)
  have kpos: "1 \<le> ?k" using digitsOf_nonempty [of m] by (cases ?ds) auto
  note rf = delimited_facts [OF rest]
  consider (plain) "?k \<le> ?n" "?n \<le> 21"
    | (point) "\<not> ?k \<le> ?n" "0 < ?n" "?n \<le> 21"
    | (small) "- 6 < ?n" "?n \<le> 0"
    | (expo) "\<not> (?k \<le> ?n \<and> ?n \<le> 21)" "\<not> (0 < ?n \<and> ?n \<le> 21)" "\<not> (- 6 < ?n \<and> ?n \<le> 0)"
    by linarith
  then show ?thesis
  proof cases
    case plain
    let ?j = "nat (?n - ?k)"
    let ?ip = "?ds @ replicate ?j 48"
    have str: "positiveToString m e = ?ip"
      using plain by (simp add: positiveToString_def Let_def)
    have ip: "list_all isDecimalDigit ?ip" "?ip \<noteq> []" "hd ?ip = 48 \<longrightarrow> ?ip = [48]"
      using ds hd by (auto simp: not_digit_chars list_all_iff)
    have 1: "integerPart (?ip @ rest) = Some (?ip, rest)"
      by (rule integerPart_digits [OF ip rf(1)])
    have 2: "fractionPart rest = Some ([], rest)" by (rule fractionPart_none [OF rf(2)])
    have 3: "exponentPart rest = Some (0, rest)" by (rule exponentPart_none [OF rf(3)])
    have 4: "?ip @ rest \<noteq> [] \<longrightarrow> hd (?ip @ rest) \<noteq> 45" using hd45 by simp
    have v: "digitsValue (?ip @ []) = m * 10 ^ ?j"
      by (simp add: digitsValue_append)
    have e: "int ?j = e" using plain by simp
    from parseNumber_parts [OF 1 2 3 4] show ?thesis
      unfolding str v using mkFinite_shift [OF m, of _ ?j] e by simp
  next
    case point
    let ?ip = "take (nat ?n) ?ds"
    let ?fp = "drop (nat ?n) ?ds"
    have str: "positiveToString m e = ?ip @ 46 # ?fp"
      using point by (simp add: positiveToString_def Let_def js_def)
    have ipne: "?ip \<noteq> []" using point by simp
    then have hdip: "hd ?ip = hd ?ds" by (cases ?ds) (auto simp: take_Cons')
    have ip: "list_all isDecimalDigit ?ip" "?ip \<noteq> []" "hd ?ip = 48 \<longrightarrow> ?ip = [48]"
      using ds hd ipne hdip by (auto simp: list_all_iff dest: in_set_takeD)
    have fp: "list_all isDecimalDigit ?fp" "?fp \<noteq> []"
      using ds point by (auto simp: list_all_iff dest: in_set_dropD)
    have 1: "integerPart (?ip @ 46 # ?fp @ rest) = Some (?ip, 46 # ?fp @ rest)"
      by (rule integerPart_digits [OF ip]) (simp add: not_digit_chars)
    have 2: "fractionPart (46 # ?fp @ rest) = Some (?fp, rest)"
      by (rule fractionPart_digits [OF fp rf(1)])
    have 3: "exponentPart rest = Some (0, rest)" by (rule exponentPart_none [OF rf(3)])
    have 4: "?ip @ 46 # ?fp @ rest \<noteq> [] \<longrightarrow> hd (?ip @ 46 # ?fp @ rest) \<noteq> 45"
      using hd45 hdip ipne by simp
    have e: "0 - int (length ?fp) = e" using point by simp
    from parseNumber_parts [OF 1 2 3 4] show ?thesis
      unfolding str e by (simp add: mkFinite_normal [OF m])
  next
    case small
    let ?fp = "replicate (nat (- ?n)) 48 @ ?ds"
    have "\<not> 0 \<le> e" using small kpos by linarith
    then have str: "positiveToString m e = [48] @ 46 # ?fp"
      using small by (simp add: positiveToString_def Let_def js_def)
    have fp: "list_all isDecimalDigit ?fp" "?fp \<noteq> []"
      using ds by (auto simp: list_all_iff not_digit_chars)
    have 1: "integerPart ([48] @ 46 # ?fp @ rest) = Some ([48], 46 # ?fp @ rest)"
      by (rule integerPart_digits) (simp_all add: not_digit_chars)
    have 2: "fractionPart (46 # ?fp @ rest) = Some (?fp, rest)"
      by (rule fractionPart_digits [OF fp rf(1)])
    have 3: "exponentPart rest = Some (0, rest)" by (rule exponentPart_none [OF rf(3)])
    have 4: "[48] @ 46 # ?fp @ rest \<noteq> [] \<longrightarrow> hd ([48] @ 46 # ?fp @ rest) \<noteq> 45" by simp
    have v: "digitsValue ([48] @ ?fp) = m"
      using digitsValue_append [of "48 # replicate (nat (- ?n)) 48" ?ds]
        digitsValue_zeros [of "Suc (nat (- ?n))"] by simp
    have e: "0 - int (length ?fp) = e" using small by simp
    from parseNumber_parts [OF 1 2 3 4] show ?thesis
      unfolding str v e by (simp add: mkFinite_normal [OF m])
  next
    case expo
    let ?x = "?n - 1"
    let ?xs = "digitsOf (nat \<bar>?x\<bar>)"
    let ?sg = "if ?x < 0 then 45 else 43 :: nat"
    let ?ex = "101 # ?sg # ?xs"
    have xs: "list_all isDecimalDigit ?xs" "?xs \<noteq> []"
      by (simp_all add: digitsOf_digits)
    have 3: "exponentPart (?ex @ rest) = Some (?x, rest)"
      using exponentPart_signed [OF xs rf(1)] by (cases "?x < 0") simp_all
    show ?thesis
    proof (cases "?k = 1")
      case True
      have str: "positiveToString m e = ?ds @ ?ex"
        using expo True by (auto simp: positiveToString_def Let_def js_def)
      have 1: "integerPart (?ds @ ?ex @ rest) = Some (?ds, ?ex @ rest)"
        by (rule integerPart_digits) (use ds hd True in \<open>auto simp: not_digit_chars length_Suc_conv\<close>)
      have 2: "fractionPart (?ex @ rest) = Some ([], ?ex @ rest)"
        by (rule fractionPart_none) simp
      have 4: "?ds @ ?ex @ rest \<noteq> [] \<longrightarrow> hd (?ds @ ?ex @ rest) \<noteq> 45" using hd45 by simp
      have e: "?x - int (length ([] :: nat list)) = e" using True by simp
      from parseNumber_parts [OF 1 2 3 4] show ?thesis
        unfolding str e by (simp add: mkFinite_normal [OF m])
    next
      case False
      let ?ip = "take 1 ?ds"
      let ?fp = "drop 1 ?ds"
      have k2: "2 \<le> length ?ds"
        using False kpos by linarith
      have str: "positiveToString m e = ?ip @ 46 # ?fp @ ?ex"
        using expo False by (auto simp: positiveToString_def Let_def js_def)
      have hdip: "hd ?ip = hd ?ds" "?ip \<noteq> []" using k2 by (cases ?ds; simp)+
      have ip: "list_all isDecimalDigit ?ip" "?ip \<noteq> []" "hd ?ip = 48 \<longrightarrow> ?ip = [48]"
        using ds hd hdip by (auto simp: list_all_iff dest: in_set_takeD)
      have fp: "list_all isDecimalDigit ?fp" "?fp \<noteq> []"
        using ds k2 by (auto simp: list_all_iff dest: in_set_dropD)
      have 1: "integerPart (?ip @ 46 # ?fp @ ?ex @ rest) = Some (?ip, 46 # ?fp @ ?ex @ rest)"
        by (rule integerPart_digits [OF ip]) (simp add: not_digit_chars)
      have 2: "fractionPart (46 # ?fp @ ?ex @ rest) = Some (?fp, ?ex @ rest)"
        by (rule fractionPart_digits [OF fp]) (simp add: not_digit_chars)
      have 4: "?ip @ 46 # ?fp @ ?ex @ rest \<noteq> [] \<longrightarrow> hd (?ip @ 46 # ?fp @ ?ex @ rest) \<noteq> 45"
        using hd45 hdip by simp
      have e: "?x - int (length ?fp) = e" using k2 by simp
      from parseNumber_parts [OF 1 2 3 4] show ?thesis
        unfolding str e by (simp add: mkFinite_normal [OF m])
    qed
  qed
qed


lemma hexChar_digit: "d < 16 \<Longrightarrow> isHexDigit (hexChar d) \<and> hexDigitValue (hexChar d) = d"
  by (auto simp: hexChar_def isHexDigit_def isDecimalDigit_def hexDigitValue_def)

lemma hex4_value:
  assumes "c < 65536"
  shows "radixValue 16 [hexChar (c div 4096 mod 16), hexChar (c div 256 mod 16),
           hexChar (c div 16 mod 16), hexChar (c mod 16)] = c"
proof -
  have "radixValue 16 [hexChar (c div 4096 mod 16), hexChar (c div 256 mod 16),
           hexChar (c div 16 mod 16), hexChar (c mod 16)] =
        ((c div 4096 mod 16 * 16 + c div 256 mod 16) * 16 + c div 16 mod 16) * 16 + c mod 16"
    by (simp add: radixValue_def hexChar_digit algebra_simps)
  also have "\<dots> = c"
  proof -
    have a: "c div 4096 mod 16 = c div 4096"
      using assms by (simp add: less_mult_imp_div_less)
    have "c div 4096 = c div 256 div 16" "c div 256 = c div 16 div 16"
      by (simp_all add: div_mult2_eq [symmetric])
    then have b: "c div 4096 * 16 + c div 256 mod 16 = c div 256"
      and d: "c div 256 * 16 + c div 16 mod 16 = c div 16"
      by (simp_all only: div_mult_mod_eq)
    have e: "c div 16 * 16 + c mod 16 = c" by simp
    show ?thesis unfolding a b d e ..
  qed
  finally show ?thesis .
qed

lemma parseChars_unicodeEscape:
  assumes "c < 65536"
  shows "parseChars (unicodeEscape c @ tail) = consChar c (parseChars tail)"
  using hex4_value [OF assms]
  by (subst parseChars.simps) (simp add: unicodeEscape_def hexChar_digit)

lemma parseChars_escapeCodeUnit:
  "parseChars (escapeCodeUnit c @ tail) = consChar c (parseChars tail)"
proof -
  consider (two) "c = 8 \<or> c = 9 \<or> c = 10 \<or> c = 12 \<or> c = 13 \<or> c = 34 \<or> c = 92"
    | (uni) "c \<noteq> 8" "c \<noteq> 9" "c \<noteq> 10" "c \<noteq> 12" "c \<noteq> 13" "c \<noteq> 34" "c \<noteq> 92"
        "c < 32 \<or> isLeadingSurrogate c \<or> isTrailingSurrogate c"
    | (plain) "c \<noteq> 34" "c \<noteq> 92" "\<not> c < 32" "\<not> isLeadingSurrogate c" "\<not> isTrailingSurrogate c"
    by auto
  then show ?thesis
  proof cases
    case two
    then show ?thesis
      by (subst parseChars.simps) (auto simp: escapeCodeUnit_def unescape_def)
  next
    case uni
    then have "c < 65536" by (auto simp: isLeadingSurrogate_def isTrailingSurrogate_def)
    from parseChars_unicodeEscape [OF this] uni show ?thesis
      by (simp add: escapeCodeUnit_def)
  next
    case plain
    then show ?thesis
      by (subst parseChars.simps) (simp add: escapeCodeUnit_def)
  qed
qed

lemma parseChars_surrogate:
  "isLeadingSurrogate c \<or> isTrailingSurrogate c \<Longrightarrow> parseChars (c # tail) = consChar c (parseChars tail)"
  by (subst parseChars.simps) (auto simp: isLeadingSurrogate_def isTrailingSurrogate_def)

lemma parseChars_quoteChars: "parseChars (quoteChars s @ 34 # rest) = Some (s, rest)"
proof (induction s rule: quoteChars.induct)
  case 1
  show ?case by (subst parseChars.simps) simp
next
  case (2 c)
  have "parseChars (34 # rest) = Some ([], rest)" by (subst parseChars.simps) simp
  then show ?case by (simp add: parseChars_escapeCodeUnit consChar_def)
next
  case (3 c d r)
  show ?case
  proof (cases "isLeadingSurrogate c \<and> isTrailingSurrogate d")
    case True
    with 3 show ?thesis by (simp add: parseChars_surrogate consChar_def)
  next
    case False
    with 3 show ?thesis by (auto simp: parseChars_escapeCodeUnit consChar_def)
  qed
qed


lemma skipWs_startsValue: "startsValue s \<Longrightarrow> skipWs s = s"
  by (cases s) (auto simp: startsValue_def skipWs_def)

lemma skipWs_delim [simp]: "skipWs (44 # s) = 44 # s" "skipWs (93 # s) = 93 # s"
  "skipWs (125 # s) = 125 # s" "skipWs (58 # s) = 58 # s" "skipWs (34 # s) = 34 # s"
  by (simp_all add: skipWs_def isJSONWhiteSpace_def)

lemma positiveToString_hd:
  "\<exists>c t. positiveToString m e = c # t \<and> isDecimalDigit c"
proof -
  obtain d ds where ds: "digitsOf m = d # ds" using digitsOf_nonempty [of m] by (cases "digitsOf m") auto
  with digitsOf_digits [of m] have d: "isDecimalDigit d" by simp
  show ?thesis
    using d by (auto simp: positiveToString_def Let_def ds js_def isDecimalDigit_def take_Cons')
qed

lemma Number_toString_hd:
  "\<exists>c t. Number_toString (Finite neg m e) = c # t \<and> (isDecimalDigit c \<or> c = 45)"
  using positiveToString_hd [of m e] by (auto simp: js_def isDecimalDigit_def)

lemma parseValue_number:
  assumes "s = c # t" "isDecimalDigit c \<or> c = 45"
  shows "parseValue s =
    (case parseNumber s of None \<Rightarrow> None | Some (n, rest) \<Rightarrow> Some (JNumber n, rest))"
  using assms by (subst parseValue.simps) (auto simp: js_def isDecimalDigit_def)

lemma parseNumber_zero:
  assumes "delimited rest"
  shows "parseNumber (48 # rest) = Some (Finite False 0 0, rest)"
proof -
  note rf = delimited_facts [OF assms]
  have 1: "integerPart ([48] @ rest) = Some ([48], rest)"
    by (rule integerPart_digits) (use rf in \<open>simp_all add: not_digit_chars\<close>)
  have 2: "fractionPart rest = Some ([], rest)" by (rule fractionPart_none [OF rf(2)])
  have 3: "exponentPart rest = Some (0, rest)" by (rule exponentPart_none [OF rf(3)])
  from parseNumber_parts(1) [OF 1 2 3] show ?thesis
    by (simp add: digitsValue_single hexDigitValue_def mkFinite_def)
qed

lemma parseValue_Number_toString:
  assumes "safeNumber n" "delimited rest"
  shows "parseValue (JSON_stringify (JNumber n) @ rest) = Some (JNumber n, rest)"
proof -
  from assms(1) obtain neg m e where n: "n = Finite neg m e" by (cases n) auto
  obtain c t where ct: "Number_toString (Finite neg m e) = c # t" "isDecimalDigit c \<or> c = 45"
    using Number_toString_hd by blast
  have pn: "parseNumber (Number_toString (Finite neg m e) @ rest) = Some (Finite neg m e, rest)"
  proof (cases "m = 0")
    case True
    with assms(1) n have "neg = False" "e = 0" by auto
    with True parseNumber_zero [OF assms(2)] show ?thesis by (simp add: js_def)
  next
    case False
    with assms(1) n have "m mod 10 \<noteq> 0" by auto
    from parseNumber_positiveToString [OF this assms(2), of e] False show ?thesis
      by (cases neg) (simp_all add: js_def)
  qed
  have "parseValue (c # t @ rest) =
      (case parseNumber (c # t @ rest) of None \<Rightarrow> None | Some (n, rest) \<Rightarrow> Some (JNumber n, rest))"
    by (rule parseValue_number [OF refl ct(2)])
  moreover have "JSON_stringify (JNumber n) = c # t"
    by (simp only: n JSON_stringify.simps jsnum.case ct(1))
  ultimately show ?thesis
    using pn by (simp only: n ct(1) append_Cons option.case prod.case)
qed


lemma stringify_starts: "startsValue (JSON_stringify v @ rest)"
proof (cases v)
  case (JNumber n)
  show ?thesis
  proof (cases n)
    case (Finite neg m e)
    obtain c t where "Number_toString (Finite neg m e) = c # t" "isDecimalDigit c \<or> c = 45"
      using Number_toString_hd by blast
    then have "JSON_stringify v = c # t" "isDecimalDigit c \<or> c = 45"
      by (simp_all only: JNumber Finite JSON_stringify.simps jsnum.case)
    then show ?thesis
      by (auto simp: startsValue_def isJSONWhiteSpace_def isDecimalDigit_def)
  qed (simp_all add: JNumber startsValue_def isJSONWhiteSpace_def js_def)
qed (simp_all add: startsValue_def isJSONWhiteSpace_def js_def QuoteJSONString_def)

lemma defineProperty_fresh: "fst p \<notin> fst ` set acc \<Longrightarrow> defineProperty acc p = acc @ [p]"
  by (induction acc) auto

lemma foldl_defineProperty:
  "distinct (map fst (acc @ ps)) \<Longrightarrow> foldl defineProperty acc ps = acc @ ps"
proof (induction ps arbitrary: acc)
  case Nil
  then show ?case by simp
next
  case (Cons p ps)
  then have "fst p \<notin> fst ` set acc" by auto
  then have "defineProperty acc p = acc @ [p]" by (rule defineProperty_fresh)
  with Cons.IH [of "acc @ [p]"] Cons.prems show ?case by simp
qed

lemma startsValue_join:
  "vs \<noteq> [] \<Longrightarrow> startsValue (Array_join sep (map JSON_stringify vs) @ rest)"
proof (cases vs)
  case (Cons v ws)
  then show ?thesis
    using stringify_starts [of v "sep @ Array_join sep (map JSON_stringify ws) @ rest"]
      stringify_starts [of v rest]
    by (cases ws) simp_all
qed simp

lemma parseElements_join:
  assumes "vs \<noteq> []"
    and "\<And>v rest. v \<in> set vs \<Longrightarrow> delimited rest \<Longrightarrow>
           parseValue (JSON_stringify v @ rest) = Some (v, rest)"
  shows "parseElements (Array_join [44] (map JSON_stringify vs) @ 93 # rest) = Some (vs, rest)"
  using assms
proof (induction vs rule: list_nonempty_induct)
  case (single v)
  have "parseValue (JSON_stringify v @ 93 # rest) = Some (v, 93 # rest)"
    by (rule single) (simp_all add: delimited_def)
  then show ?case
    by (subst parseElements.simps) simp
next
  case (cons v vs)
  let ?r = "Array_join [44] (map JSON_stringify vs) @ 93 # rest"
  have pv: "parseValue (JSON_stringify v @ 44 # ?r) = Some (v, 44 # ?r)"
    by (rule cons.prems) (simp_all add: delimited_def)
  have sk: "skipWs ?r = ?r"
    by (rule skipWs_startsValue [OF startsValue_join [OF cons.hyps]])
  have ih: "parseElements ?r = Some (vs, rest)"
    by (rule cons.IH) (simp add: cons.prems)
  obtain w ws where vs: "vs = w # ws" using cons.hyps by (cases vs) auto
  have str: "Array_join [44] (map JSON_stringify (v # vs)) @ 93 # rest =
      JSON_stringify v @ 44 # ?r"
    by (simp add: vs)
  show ?case
    unfolding str
    by (subst parseElements.simps) (simp add: pv sk ih)
qed

lemma parseMembers_join:
  assumes "ps \<noteq> []"
    and "\<And>p rest. p \<in> set ps \<Longrightarrow> delimited rest \<Longrightarrow>
           parseValue (JSON_stringify (snd p) @ rest) = Some (snd p, rest)"
  shows "parseMembers (Array_join [44] (map memberText ps) @ 125 # rest) = Some (ps, rest)"
  using assms
proof (induction ps rule: list_nonempty_induct)
  case (single p)
  obtain k v where p: "p = (k, v)" by (cases p)
  have pv: "parseValue (JSON_stringify v @ 125 # rest) = Some (v, 125 # rest)"
    using single [of p "125 # rest"] by (simp add: p delimited_def)
  have sk: "skipWs (JSON_stringify v @ 125 # rest) = JSON_stringify v @ 125 # rest"
    by (rule skipWs_startsValue [OF stringify_starts])
  show ?case
    by (subst parseMembers.simps)
      (simp add: p memberText_def QuoteJSONString_def parseChars_quoteChars pv sk)
next
  case (cons p ps)
  obtain k v where p: "p = (k, v)" by (cases p)
  let ?r = "Array_join [44] (map memberText ps) @ 125 # rest"
  have pv: "parseValue (JSON_stringify v @ 44 # ?r) = Some (v, 44 # ?r)"
    using cons.prems [of p "44 # ?r"] by (simp add: p delimited_def)
  have sk: "skipWs (JSON_stringify v @ 44 # ?r) = JSON_stringify v @ 44 # ?r"
    by (rule skipWs_startsValue [OF stringify_starts])
  obtain q qs where ps: "ps = q # qs" using cons.hyps by (cases ps) auto
  have skr: "skipWs ?r = ?r"
    by (cases qs) (simp_all add: ps memberText_def QuoteJSONString_def)
  have ih: "parseMembers ?r = Some (ps, rest)"
    by (rule cons.IH) (simp add: cons.prems)
  have str: "Array_join [44] (map memberText (p # ps)) @ 125 # rest =
      34 # quoteChars k @ 34 # 58 # JSON_stringify v @ 44 # ?r"
    by (simp add: ps p memberText_def QuoteJSONString_def)
  show ?case
    unfolding str
    by (subst parseMembers.simps) (simp add: parseChars_quoteChars pv sk skr ih p)
qed


lemma parseValue_stringify:
  "stringSafe v \<Longrightarrow> delimited rest \<Longrightarrow> parseValue (JSON_stringify v @ rest) = Some (v, rest)"
proof (induction v arbitrary: rest)
  case JNull
  show ?case by (subst parseValue.simps) (simp add: js_def)
next
  case (JBoolean b)
  show ?case by (subst parseValue.simps) (simp add: js_def)
next
  case (JNumber n)
  then show ?case by (simp only: stringSafe.simps parseValue_Number_toString)
next
  case (JString t)
  show ?case
    by (subst parseValue.simps) (simp add: QuoteJSONString_def parseChars_quoteChars)
next
  case (JArray vs)
  show ?case
  proof (cases "vs = []")
    case True
    then show ?thesis by (subst parseValue.simps) (simp add: js_def)
  next
    case False
    let ?r = "Array_join [44] (map JSON_stringify vs) @ 93 # rest"
    have el: "parseElements ?r = Some (vs, rest)"
      by (rule parseElements_join [OF False]) (use JArray in \<open>auto simp: list_all_iff\<close>)
    have sv: "startsValue ?r" by (rule startsValue_join [OF False])
    then obtain d r' where dr: "?r = d # r'" "d \<noteq> 93" by (cases ?r) (auto simp: startsValue_def)
    have sk: "skipWs ?r = ?r" by (rule skipWs_startsValue [OF sv])
    have "parseValue (91 # d # r') = Some (JArray vs, rest)"
      using sk el dr(2) unfolding dr(1) by (subst parseValue.simps) simp
    then show ?thesis by (simp add: js_def dr(1) [symmetric])
  qed
next
  case (JObject ps)
  show ?case
  proof (cases "ps = []")
    case True
    then show ?thesis by (subst parseValue.simps) (simp add: js_def)
  next
    case False
    let ?r = "Array_join [44] (map memberText ps) @ 125 # rest"
    have "\<And>p rest. p \<in> set ps \<Longrightarrow> delimited rest \<Longrightarrow>
        parseValue (JSON_stringify (snd p) @ rest) = Some (snd p, rest)"
    proof -
      fix p rest
      assume p: "p \<in> set ps" and d: "delimited rest"
      obtain k v where kv: "p = (k, v)" by (cases p)
      have "v \<in> Basic_BNFs.snds p" by (simp add: kv)
      moreover have "stringSafe v" using JObject.prems(1) p kv by (auto simp: list_all_iff)
      ultimately show "parseValue (JSON_stringify (snd p) @ rest) = Some (snd p, rest)"
        using JObject.IH [OF p _ _ d] kv by simp
    qed
    then have el: "parseMembers ?r = Some (ps, rest)"
      by (rule parseMembers_join [OF False])
    obtain q qs where qs: "ps = q # qs" using False by (cases ps) auto
    obtain r' where dr: "?r = 34 # r'"
      by (cases qs) (simp_all add: qs memberText_def QuoteJSONString_def)
    have fd: "foldl defineProperty [] ps = ps"
      using foldl_defineProperty [of "[]" ps] JObject.prems(1) by simp
    have "parseValue (123 # 34 # r') = Some (JObject ps, rest)"
      using el fd unfolding dr by (subst parseValue.simps) simp
    moreover have "JSON_stringify (JObject ps) @ rest = 123 # ?r"
      by (simp add: js_def memberText_def [abs_def])
    ultimately show ?thesis by (simp add: dr)
  qed
qed

text \<open>Parsing the text of a string-safe value gives the value back.\<close>

lemma JSON_parse_stringify: "stringSafe v \<Longrightarrow> JSON_parse (JSON_stringify v) = Inr v"
  using parseValue_stringify [of v "[]"] skipWs_startsValue [OF stringify_starts [of v "[]"]]
  by (simp add: JSON_parse_def delimited_def skipWs_def)

section \<open>Properties of persistence and export\<close>

lemma stageLines_strings:
  "stageLines catalog (map JString ss) =
     Inr (map (\<lambda>stage. toUpperCase stage @ js '': '' @ templateText (catalog stage)) ss)"
  by (induction ss) simp_all

lemma elementText_strings: "map (elementText \<circ> JString) ss = ss"
  by (induction ss) (simp_all add: elementText_def)

lemma textOr_string: "textOr (Some (JString t)) fallback = orElse t fallback"
  by (simp add: textOr_def orElse_def)

lemma getProperty_configValue:
  "getProperty (configValue c) (js ''business'') = Some (JString (business c))"
  "getProperty (configValue c) (js ''industry'') = Some (JString (industry c))"
  "getProperty (configValue c) (js ''sessions'') = Some (JNumber (sessions c))"
  "getProperty (configValue c) (js ''cpa'') = Some (JNumber (cpa c))"
  "getProperty (configValue c) (js ''stages'') = Some (JArray (map JString (stages c)))"
  "getProperty (configValue c) (js ''newsletter'') = Some (JBoolean (newsletter c))"
  by (simp_all add: getProperty_def configValue_def js_def)

lemma briefLines_configValue:
  "briefLines fmt (configValue c) =
     Inr ([js ''FoxyTrailz23 Growth Brief'',
           js ''Business: '' @ orElse (business c) (js ''Not specified''),
           js ''Industry: '' @ orElse (industry c) (js ''Not specified''),
           js ''Monthly Sessions: '' @ fmt (sessions c),
           js ''Target CPA: $'' @ Number_toFixed0 (cpa c),
           js ''Stages: '' @ Array_join (js '', '') (stages c),
           js ''Newsletter Sync: '' @ (if newsletter c then js ''Enabled'' else js ''Disabled''),
           [],
           js ''Stage Strategy:''] @
          map (\<lambda>stage. toUpperCase stage @ js '': '' @ templateText (stageDescriptions stage))
            (stages c) @
          [[], js ''KPIs:''] @
          map (\<lambda>stage. toUpperCase stage @ js '': '' @ templateText (stageKpis stage)) (stages c))"
  unfolding briefLines_def getProperty_configValue
  by (simp add: call_toLocaleString_def call_toFixed0_def call_join_def call_map_stageLines_def
      stageLines_strings elementText_strings textOr_string)


lemmas store_eval = persistConfig_def loadConfig_def Storage_setItem_def Storage_getItem_def
  console_warn_def

lemmas parse_eval = JSON_parse_def parseValue.simps parseElements.simps parseMembers.simps
  parseChars.simps parseNumber_def integerPart_def fractionPart_def exponentPart_def
  exponentDigits_def skipWs_def isJSONWhiteSpace_def consChar_def unescape_def
  isDecimalDigit_def isHexDigit_def digitsValue_def radixValue_def hexDigitValue_def
  mkFinite_def norm10.simps js_def

lemmas stringify_eval = QuoteJSONString_def escapeCodeUnit_def unicodeEscape_def hexChar_def
  isLeadingSurrogate_def isTrailingSurrogate_def positiveToString_def digitsOf.simps js_def
  configValue_def

lemmas brief_eval = downloadBriefClick_def briefSource_def briefLines_def getProperty_def
  call_toLocaleString_def call_toFixed0_def call_join_def call_map_stageLines_def
  queryElement_def

lemma configValue_stringSafe:
  "stringSafe (configValue x) \<longleftrightarrow> safeNumber (sessions x) \<and> safeNumber (cpa x)"
  by (simp add: configValue_def js_def list_all_iff)

lemma configValue_inj: "configValue x = configValue y \<Longrightarrow> x = y"
  by (cases x; cases y) (simp add: configValue_def inj_map_eq_map inj_def)

lemma stringify_config_nonempty: "JSON_stringify (configValue x) \<noteq> []"
  by (simp add: configValue_def js_def)

subsection \<open>Round trip\<close>

text \<open>
  C3: for a configuration whose two numbers are string-safe, on an accessible store
  with room for the text, \<^verbatim>\<open>persistConfig\<close> followed by \<^verbatim>\<open>loadConfig\<close> returns the object
  of that configuration, and no other configuration has that object.
\<close>

theorem persist_load_roundtrip:
  "safeNumber (sessions x) \<and> safeNumber (cpa x) \<and> accessible (localStorage b) \<and>
   length (js ''foxytrailz23:funnel'') + length (JSON_stringify (configValue x)) \<le>
     quota (localStorage b) \<longrightarrow>
   (\<exists>b'. persistConfig x b = Inr b' \<and>
         loadConfig b' = Inr (Some (configValue x), b') \<and>
         (\<forall>y. configValue y = configValue x \<longrightarrow> y = x))"
proof
  assume a: "safeNumber (sessions x) \<and> safeNumber (cpa x) \<and> accessible (localStorage b) \<and>
   length (js ''foxytrailz23:funnel'') + length (JSON_stringify (configValue x)) \<le>
     quota (localStorage b)"
  let ?raw = "JSON_stringify (configValue x)"
  let ?b' = "b\<lparr>localStorage := (localStorage b)\<lparr>items :=
      (items (localStorage b))(js ''foxytrailz23:funnel'' \<mapsto> ?raw)\<rparr>\<rparr>"
  have 1: "persistConfig x b = Inr ?b'"
    using a by (simp add: persistConfig_def Storage_setItem_def)
  have "JSON_parse ?raw = Inr (configValue x)"
    by (rule JSON_parse_stringify) (simp add: configValue_stringSafe a)
  then have 2: "loadConfig ?b' = Inr (Some (configValue x), ?b')"
    using a stringify_config_nonempty [of x]
    by (simp add: loadConfig_def Storage_getItem_def)
  from 1 2 configValue_inj show "\<exists>b'. persistConfig x b = Inr b' \<and>
         loadConfig b' = Inr (Some (configValue x), b') \<and>
         (\<forall>y. configValue y = configValue x \<longrightarrow> y = x)"
    by blast
qed


theorem persist_load_roundtrip_witness:
  "safeNumber (sessions \<lparr>business = js ''Acme'', industry = [], sessions = Finite False 1 3,
       cpa = Finite False 427 (- 1), stages = [js ''retention''], newsletter = False\<rparr>) \<and>
   safeNumber (cpa \<lparr>business = js ''Acme'', industry = [], sessions = Finite False 1 3,
       cpa = Finite False 427 (- 1), stages = [js ''retention''], newsletter = False\<rparr>) \<and>
   accessible (localStorage \<lparr>localStorage = \<lparr>items = Map.empty, accessible = True, quota = 5000000\<rparr>,
       console = []\<rparr>) \<and>
   length (js ''foxytrailz23:funnel'') + length (JSON_stringify (configValue \<lparr>business = js ''Acme'', industry = [], sessions = Finite False 1 3,
       cpa = Finite False 427 (- 1), stages = [js ''retention''], newsletter = False\<rparr>)) \<le>
     quota (localStorage \<lparr>localStorage = \<lparr>items = Map.empty, accessible = True, quota = 5000000\<rparr>,
       console = []\<rparr>) \<and>
   (\<exists>b'. persistConfig \<lparr>business = js ''Acme'', industry = [], sessions = Finite False 1 3,
       cpa = Finite False 427 (- 1), stages = [js ''retention''], newsletter = False\<rparr>
       \<lparr>localStorage = \<lparr>items = Map.empty, accessible = True, quota = 5000000\<rparr>,
       console = []\<rparr> = Inr b' \<and>
     loadConfig b' = Inr (Some (configValue \<lparr>business = js ''Acme'', industry = [], sessions = Finite False 1 3,
       cpa = Finite False 427 (- 1), stages = [js ''retention''], newsletter = False\<rparr>), b'))"
proof -
  have h: "safeNumber (sessions \<lparr>business = js ''Acme'', industry = [], sessions = Finite False 1 3,
       cpa = Finite False 427 (- 1), stages = [js ''retention''], newsletter = False\<rparr>) \<and>
   safeNumber (cpa \<lparr>business = js ''Acme'', industry = [], sessions = Finite False 1 3,
       cpa = Finite False 427 (- 1), stages = [js ''retention''], newsletter = False\<rparr>) \<and>
   accessible (localStorage \<lparr>localStorage = \<lparr>items = Map.empty, accessible = True, quota = 5000000\<rparr>,
       console = []\<rparr>) \<and>
   length (js ''foxytrailz23:funnel'') + length (JSON_stringify (configValue \<lparr>business = js ''Acme'', industry = [], sessions = Finite False 1 3,
       cpa = Finite False 427 (- 1), stages = [js ''retention''], newsletter = False\<rparr>)) \<le>
     quota (localStorage \<lparr>localStorage = \<lparr>items = Map.empty, accessible = True, quota = 5000000\<rparr>,
       console = []\<rparr>)"
    by (simp add: stringify_eval)
  from persist_load_roundtrip [THEN mp, OF h]
  have "(\<exists>b'. persistConfig \<lparr>business = js ''Acme'', industry = [], sessions = Finite False 1 3,
       cpa = Finite False 427 (- 1), stages = [js ''retention''], newsletter = False\<rparr>
       \<lparr>localStorage = \<lparr>items = Map.empty, accessible = True, quota = 5000000\<rparr>,
       console = []\<rparr> = Inr b' \<and>
     loadConfig b' = Inr (Some (configValue \<lparr>business = js ''Acme'', industry = [], sessions = Finite False 1 3,
       cpa = Finite False 427 (- 1), stages = [js ''retention''], newsletter = False\<rparr>), b'))"
    by blast
  with h show ?thesis by blast
qed

subsection \<open>An empty stored string\<close>

text \<open>
  C9: when the value stored under the key is the empty string, \<^verbatim>\<open>loadConfig\<close> returns
  \<^verbatim>\<open>undefined\<close>, as it does when the key is unset, and logs what it logs then; on an
  accessible store that is nothing at all.
\<close>

theorem loadConfig_empty_string:
  "items (localStorage b) (js ''foxytrailz23:funnel'') = Some [] \<longrightarrow>
     (\<exists>b1 b2.
        loadConfig b = Inr (None, b1) \<and>
        loadConfig (b\<lparr>localStorage := (localStorage b)\<lparr>items :=
          (items (localStorage b))(js ''foxytrailz23:funnel'' := None)\<rparr>\<rparr>) = Inr (None, b2) \<and>
        console b1 = console b2) \<and>
     (accessible (localStorage b) \<longrightarrow> loadConfig b = Inr (None, b))"
  by (simp add: store_eval)

theorem loadConfig_empty_string_witness:
  "items (localStorage \<lparr>localStorage = \<lparr>items = [js ''foxytrailz23:funnel'' \<mapsto> []],
       accessible = True, quota = 5000000\<rparr>, console = []\<rparr>) (js ''foxytrailz23:funnel'') = Some [] \<and>
   loadConfig \<lparr>localStorage = \<lparr>items = [js ''foxytrailz23:funnel'' \<mapsto> []],
       accessible = True, quota = 5000000\<rparr>, console = []\<rparr> =
     Inr (None, \<lparr>localStorage = \<lparr>items = [js ''foxytrailz23:funnel'' \<mapsto> []],
       accessible = True, quota = 5000000\<rparr>, console = []\<rparr>) \<and>
   loadConfig \<lparr>localStorage = \<lparr>items = Map.empty,
       accessible = True, quota = 5000000\<rparr>, console = []\<rparr> =
     Inr (None, \<lparr>localStorage = \<lparr>items = Map.empty,
       accessible = True, quota = 5000000\<rparr>, console = []\<rparr>)"
  using loadConfig_empty_string [of "\<lparr>localStorage = \<lparr>items = [js ''foxytrailz23:funnel'' \<mapsto> []],
       accessible = True, quota = 5000000\<rparr>, console = []\<rparr>"]
  by (simp add: store_eval)

subsection \<open>No error leaves the codec\<close>

text \<open>
  C4: \<^verbatim>\<open>persistConfig\<close> and \<^verbatim>\<open>loadConfig\<close> always return normally. A failing store
  write leaves the browser as it was but for one warning on the console.
  \<^verbatim>\<open>loadConfig\<close> returns \<^verbatim>\<open>undefined\<close> when the key is unset, and also when the stored
  text does not parse: the caller gets the same value in both cases, the store is left
  as it was.
\<close>

theorem persist_load_never_throw:
  "(\<exists>b'. persistConfig config b = Inr b') \<and>
   (\<exists>v b'. loadConfig b = Inr (v, b')) \<and>
   (\<forall>err. Storage_setItem (js ''foxytrailz23:funnel'') (JSON_stringify (configValue config))
            (localStorage b) = Inl err \<longrightarrow>
      persistConfig config b =
        Inr (b\<lparr>console := console b @ [(js ''Unable to persist funnel configuration'', err)]\<rparr>)) \<and>
   (accessible (localStorage b) \<and> items (localStorage b) (js ''foxytrailz23:funnel'') = None \<longrightarrow>
      loadConfig b = Inr (None, b)) \<and>
   (\<forall>raw err. accessible (localStorage b) \<and>
        items (localStorage b) (js ''foxytrailz23:funnel'') = Some raw \<and>
        JSON_parse raw = Inl err \<longrightarrow>
      (\<exists>b'. loadConfig b = Inr (None, b') \<and> localStorage b' = localStorage b))"
  by (auto simp: store_eval split: sum.splits option.splits)


theorem persist_load_never_throw_witness:
  "Storage_setItem (js ''foxytrailz23:funnel'') (JSON_stringify (configValue \<lparr>business = js ''Acme'', industry = [], sessions = Finite False 1 3,
       cpa = Finite False 427 (- 1), stages = [js ''retention''], newsletter = False\<rparr>))
     (localStorage \<lparr>localStorage = \<lparr>items = Map.empty, accessible = True, quota = 10\<rparr>,
       console = []\<rparr>) = Inl QuotaExceededError \<and>
   persistConfig \<lparr>business = js ''Acme'', industry = [], sessions = Finite False 1 3,
       cpa = Finite False 427 (- 1), stages = [js ''retention''], newsletter = False\<rparr>
     \<lparr>localStorage = \<lparr>items = Map.empty, accessible = True, quota = 10\<rparr>,
       console = []\<rparr> =
     Inr (\<lparr>localStorage = \<lparr>items = Map.empty, accessible = True, quota = 10\<rparr>,
       console = []\<rparr>\<lparr>console := console \<lparr>localStorage = \<lparr>items = Map.empty, accessible = True, quota = 10\<rparr>,
       console = []\<rparr> @
       [(js ''Unable to persist funnel configuration'', QuotaExceededError)]\<rparr>) \<and>
   accessible (localStorage \<lparr>localStorage = \<lparr>items = [js ''foxytrailz23:funnel'' \<mapsto> js ''{oops''],
       accessible = True, quota = 5000000\<rparr>, console = []\<rparr>) \<and>
   items (localStorage \<lparr>localStorage = \<lparr>items = [js ''foxytrailz23:funnel'' \<mapsto> js ''{oops''],
       accessible = True, quota = 5000000\<rparr>, console = []\<rparr>) (js ''foxytrailz23:funnel'') = Some (js ''{oops'') \<and>
   JSON_parse (js ''{oops'') = Inl SyntaxError \<and>
   (\<exists>b'. loadConfig \<lparr>localStorage = \<lparr>items = [js ''foxytrailz23:funnel'' \<mapsto> js ''{oops''],
       accessible = True, quota = 5000000\<rparr>, console = []\<rparr> = Inr (None, b') \<and>
      localStorage b' = localStorage \<lparr>localStorage = \<lparr>items = [js ''foxytrailz23:funnel'' \<mapsto> js ''{oops''],
       accessible = True, quota = 5000000\<rparr>, console = []\<rparr>) \<and>
   accessible (localStorage \<lparr>localStorage = \<lparr>items = Map.empty, accessible = True, quota = 5000000\<rparr>,
       console = []\<rparr>) \<and>
   items (localStorage \<lparr>localStorage = \<lparr>items = Map.empty, accessible = True, quota = 5000000\<rparr>,
       console = []\<rparr>) (js ''foxytrailz23:funnel'') = None \<and>
   loadConfig \<lparr>localStorage = \<lparr>items = Map.empty, accessible = True, quota = 5000000\<rparr>,
       console = []\<rparr> =
     Inr (None, \<lparr>localStorage = \<lparr>items = Map.empty, accessible = True, quota = 5000000\<rparr>,
       console = []\<rparr>)"
proof -
  note t = persist_load_never_throw
  have a: "Storage_setItem (js ''foxytrailz23:funnel'') (JSON_stringify (configValue \<lparr>business = js ''Acme'', industry = [], sessions = Finite False 1 3,
       cpa = Finite False 427 (- 1), stages = [js ''retention''], newsletter = False\<rparr>))
     (localStorage \<lparr>localStorage = \<lparr>items = Map.empty, accessible = True, quota = 10\<rparr>,
       console = []\<rparr>) = Inl QuotaExceededError"
    by (simp add: Storage_setItem_def stringify_eval)
  from t [THEN conjunct2, THEN conjunct2, THEN conjunct1, rule_format, OF a]
  have b: "persistConfig \<lparr>business = js ''Acme'', industry = [], sessions = Finite False 1 3,
       cpa = Finite False 427 (- 1), stages = [js ''retention''], newsletter = False\<rparr>
     \<lparr>localStorage = \<lparr>items = Map.empty, accessible = True, quota = 10\<rparr>,
       console = []\<rparr> =
     Inr (\<lparr>localStorage = \<lparr>items = Map.empty, accessible = True, quota = 10\<rparr>,
       console = []\<rparr>\<lparr>console := console \<lparr>localStorage = \<lparr>items = Map.empty, accessible = True, quota = 10\<rparr>,
       console = []\<rparr> @
       [(js ''Unable to persist funnel configuration'', QuotaExceededError)]\<rparr>)" .
  have c: "accessible (localStorage \<lparr>localStorage = \<lparr>items = [js ''foxytrailz23:funnel'' \<mapsto> js ''{oops''],
       accessible = True, quota = 5000000\<rparr>, console = []\<rparr>) \<and>
   items (localStorage \<lparr>localStorage = \<lparr>items = [js ''foxytrailz23:funnel'' \<mapsto> js ''{oops''],
       accessible = True, quota = 5000000\<rparr>, console = []\<rparr>) (js ''foxytrailz23:funnel'') = Some (js ''{oops'') \<and>
   JSON_parse (js ''{oops'') = Inl SyntaxError"
    by (simp add: parse_eval)
  from t [THEN conjunct2, THEN conjunct2, THEN conjunct2, THEN conjunct2, rule_format, OF c]
  have d: "(\<exists>b'. loadConfig \<lparr>localStorage = \<lparr>items = [js ''foxytrailz23:funnel'' \<mapsto> js ''{oops''],
       accessible = True, quota = 5000000\<rparr>, console = []\<rparr> = Inr (None, b') \<and>
      localStorage b' = localStorage \<lparr>localStorage = \<lparr>items = [js ''foxytrailz23:funnel'' \<mapsto> js ''{oops''],
       accessible = True, quota = 5000000\<rparr>, console = []\<rparr>)" .
  have e: "accessible (localStorage \<lparr>localStorage = \<lparr>items = Map.empty, accessible = True, quota = 5000000\<rparr>,
       console = []\<rparr>) \<and>
   items (localStorage \<lparr>localStorage = \<lparr>items = Map.empty, accessible = True, quota = 5000000\<rparr>,
       console = []\<rparr>) (js ''foxytrailz23:funnel'') = None"
    by simp
  from t [THEN conjunct2, THEN conjunct2, THEN conjunct2, THEN conjunct1, rule_format, OF e]
  have f: "loadConfig \<lparr>localStorage = \<lparr>items = Map.empty, accessible = True, quota = 5000000\<rparr>,
       console = []\<rparr> =
     Inr (None, \<lparr>localStorage = \<lparr>items = Map.empty, accessible = True, quota = 5000000\<rparr>,
       console = []\<rparr>)" .
  from a b c d e f show ?thesis by blast
qed

subsection \<open>Export\<close>

text \<open>
  C5, as stated, fails: not every export produces the lines. A form whose sessions
  field reads \<^verbatim>\<open>abc\<close> gives sessions \<open>NaN\<close>; \<^verbatim>\<open>persistConfig\<close> stores it as
  \<^verbatim>\<open>null\<close>; the next export takes the persisted object and throws a \<^verbatim>\<open>TypeError\<close> at
  \<^verbatim>\<open>config.sessions.toLocaleString()\<close>.
\<close>

theorem downloadBrief_counterexample:
  "(case persistConfig
           (readFunnelConfig [(js ''business'', js ''Acme''), (js ''sessions'', js ''abc'')])
           \<lparr>localStorage = \<lparr>items = Map.empty, accessible = True, quota = 5000000\<rparr>,
            console = []\<rparr> of
      Inl err \<Rightarrow> Inl err
    | Inr b \<Rightarrow> map_sum id fst (loadConfig b)) =
   Inr (Some (JObject
     [(js ''business'', JString (js ''Acme'')),
      (js ''industry'', JString []),
      (js ''sessions'', JNull),
      (js ''cpa'', JNumber (Finite False 0 0)),
      (js ''stages'', JArray [JString (js ''awareness''), JString (js ''consideration''),
         JString (js ''conversion'')]),
      (js ''newsletter'', JBoolean False)])) \<and>
   (case persistConfig
           (readFunnelConfig [(js ''business'', js ''Acme''), (js ''sessions'', js ''abc'')])
           \<lparr>localStorage = \<lparr>items = Map.empty, accessible = True, quota = 5000000\<rparr>,
            console = []\<rparr> of
      Inl err \<Rightarrow> Inl err
    | Inr b \<Rightarrow>
        map_sum id fst (downloadBriefClick en_US
          [js ''#analysis-form'' \<mapsto> \<lparr>childNodes = [], entryList =
             [(js ''business'', js ''Acme''), (js ''sessions'', js ''abc'')]\<rparr>] b)) =
   Inl TypeError"
  by (simp add: store_eval form_eval num_eval stringify_eval parse_eval brief_eval)


lemma briefSource_configValue: "briefSource doc (Some (configValue c)) = Inr (configValue c)"
  by (simp add: briefSource_def configValue_def)

lemma briefLines_growthBriefLines:
  "briefLines fmt (configValue c) = Inr (growthBriefLines fmt c)"
  by (simp add: briefLines_configValue growthBriefLines_def)

text \<open>
  C5, amended: when \<^verbatim>\<open>loadConfig\<close> returns the object of a \<^verbatim>\<open>FunnelConfig\<close>, the
  export uses it; when it returns \<^verbatim>\<open>undefined\<close> or \<^verbatim>\<open>null\<close>, the export reads the
  form. In both cases the download is the file \<^verbatim>\<open>foxytrailz23-growth-brief.txt\<close> of
  type \<^verbatim>\<open>text/plain\<close> whose content is the lines of \<open>growthBriefLines\<close> joined by
  line feeds. With stages \<^verbatim>\<open>["retention"]\<close> there are 13 lines; line 9 (counting from
  0), under \<^verbatim>\<open>Stage Strategy:\<close>, is the \<^verbatim>\<open>RETENTION\<close> description and line 12, under
  \<^verbatim>\<open>KPIs:\<close>, is the \<^verbatim>\<open>RETENTION\<close> KPI text.
\<close>

theorem downloadBrief_lines:
  "(loadConfig b = Inr (Some (configValue c), b') \<longrightarrow>
      downloadBriefClick fmt doc b =
        Inr (\<lparr>filename = js ''foxytrailz23-growth-brief.txt'', mimeType = js ''text/plain'',
              content = Array_join [10] (growthBriefLines fmt c)\<rparr>, b')) \<and>
   ((loadConfig b = Inr (None, b') \<or> loadConfig b = Inr (Some JNull, b')) \<and>
    doc (js ''#analysis-form'') = Some form \<longrightarrow>
      downloadBriefClick fmt doc b =
        Inr (\<lparr>filename = js ''foxytrailz23-growth-brief.txt'', mimeType = js ''text/plain'',
              content = Array_join [10] (growthBriefLines fmt (readFunnelConfig (entryList form)))\<rparr>,
             b')) \<and>
   (stages c = [js ''retention''] \<longrightarrow>
      length (growthBriefLines fmt c) = 13 \<and>
      growthBriefLines fmt c ! 8 = js ''Stage Strategy:'' \<and>
      growthBriefLines fmt c ! 9 =
        js ''RETENTION: Expand lifetime value through loyalty programs, lifecycle messaging, and advocacy campaigns.'' \<and>
      growthBriefLines fmt c ! 10 = [] \<and>
      growthBriefLines fmt c ! 11 = js ''KPIs:'' \<and>
      growthBriefLines fmt c ! 12 =
        js ''RETENTION: Primary KPIs: repeat purchase rate, churn reduction, and NPS elevation.'')"
proof (intro conjI impI)
  assume "loadConfig b = Inr (Some (configValue c), b')"
  then show "downloadBriefClick fmt doc b =
        Inr (\<lparr>filename = js ''foxytrailz23-growth-brief.txt'', mimeType = js ''text/plain'',
              content = Array_join [10] (growthBriefLines fmt c)\<rparr>, b')"
    by (simp add: downloadBriefClick_def briefSource_configValue briefLines_growthBriefLines)
next
  assume a: "(loadConfig b = Inr (None, b') \<or> loadConfig b = Inr (Some JNull, b')) \<and>
    doc (js ''#analysis-form'') = Some form"
  then show "downloadBriefClick fmt doc b =
        Inr (\<lparr>filename = js ''foxytrailz23-growth-brief.txt'', mimeType = js ''text/plain'',
              content = Array_join [10] (growthBriefLines fmt (readFunnelConfig (entryList form)))\<rparr>,
             b')"
    by (auto simp: downloadBriefClick_def briefSource_def briefLines_growthBriefLines queryElement_def)
next
  assume st: "stages c = [js ''retention'']"
  show "length (growthBriefLines fmt c) = 13" by (simp add: growthBriefLines_def st)
  show "growthBriefLines fmt c ! 8 = js ''Stage Strategy:''" by (simp add: growthBriefLines_def st)
  show "growthBriefLines fmt c ! 9 =
        js ''RETENTION: Expand lifetime value through loyalty programs, lifecycle messaging, and advocacy campaigns.''"
    by (simp add: growthBriefLines_def st stageDescriptions_def templateText_def toUpperCase_def js_def)
  show "growthBriefLines fmt c ! 10 = []" by (simp add: growthBriefLines_def st)
  show "growthBriefLines fmt c ! 11 = js ''KPIs:''" by (simp add: growthBriefLines_def st)
  show "growthBriefLines fmt c ! 12 =
        js ''RETENTION: Primary KPIs: repeat purchase rate, churn reduction, and NPS elevation.''"
    by (simp add: growthBriefLines_def st stageKpis_def templateText_def toUpperCase_def js_def)
qed

theorem downloadBrief_lines_witness:
  "loadConfig \<lparr>localStorage = \<lparr>items = [js ''foxytrailz23:funnel'' \<mapsto> JSON_stringify (configValue
       \<lparr>business = js ''Acme'', industry = [], sessions = Finite False 1 3,
       cpa = Finite False 427 (- 1), stages = [js ''retention''], newsletter = False\<rparr>)],
       accessible = True, quota = 5000000\<rparr>, console = []\<rparr> =
     Inr (Some (configValue \<lparr>business = js ''Acme'', industry = [], sessions = Finite False 1 3,
       cpa = Finite False 427 (- 1), stages = [js ''retention''], newsletter = False\<rparr>),
       \<lparr>localStorage = \<lparr>items = [js ''foxytrailz23:funnel'' \<mapsto> JSON_stringify (configValue
       \<lparr>business = js ''Acme'', industry = [], sessions = Finite False 1 3,
       cpa = Finite False 427 (- 1), stages = [js ''retention''], newsletter = False\<rparr>)],
       accessible = True, quota = 5000000\<rparr>, console = []\<rparr>) \<and>
   downloadBriefClick en_US Map.empty
     \<lparr>localStorage = \<lparr>items = [js ''foxytrailz23:funnel'' \<mapsto> JSON_stringify (configValue
       \<lparr>business = js ''Acme'', industry = [], sessions = Finite False 1 3,
       cpa = Finite False 427 (- 1), stages = [js ''retention''], newsletter = False\<rparr>)],
       accessible = True, quota = 5000000\<rparr>, console = []\<rparr> =
     Inr (\<lparr>filename = js ''foxytrailz23-growth-brief.txt'', mimeType = js ''text/plain'',
           content = Array_join [10] (growthBriefLines en_US \<lparr>business = js ''Acme'', industry = [], sessions = Finite False 1 3,
       cpa = Finite False 427 (- 1), stages = [js ''retention''], newsletter = False\<rparr>)\<rparr>,
       \<lparr>localStorage = \<lparr>items = [js ''foxytrailz23:funnel'' \<mapsto> JSON_stringify (configValue
       \<lparr>business = js ''Acme'', industry = [], sessions = Finite False 1 3,
       cpa = Finite False 427 (- 1), stages = [js ''retention''], newsletter = False\<rparr>)],
       accessible = True, quota = 5000000\<rparr>, console = []\<rparr>) \<and>
   (loadConfig \<lparr>localStorage = \<lparr>items = Map.empty, accessible = True, quota = 5000000\<rparr>,
       console = []\<rparr> =
     Inr (None, \<lparr>localStorage = \<lparr>items = Map.empty, accessible = True, quota = 5000000\<rparr>,
       console = []\<rparr>)) \<and>
   [js ''#analysis-form'' \<mapsto> \<lparr>childNodes = [], entryList = [(js ''business'', js ''Acme''),
       (js ''stage'', js ''retention'')]\<rparr>] (js ''#analysis-form'') =
     Some \<lparr>childNodes = [], entryList = [(js ''business'', js ''Acme''),
       (js ''stage'', js ''retention'')]\<rparr> \<and>
   downloadBriefClick en_US
     [js ''#analysis-form'' \<mapsto> \<lparr>childNodes = [], entryList = [(js ''business'', js ''Acme''),
       (js ''stage'', js ''retention'')]\<rparr>]
     \<lparr>localStorage = \<lparr>items = Map.empty, accessible = True, quota = 5000000\<rparr>,
       console = []\<rparr> =
     Inr (\<lparr>filename = js ''foxytrailz23-growth-brief.txt'', mimeType = js ''text/plain'',
           content = Array_join [10] (growthBriefLines en_US (readFunnelConfig (entryList
             \<lparr>childNodes = [], entryList = [(js ''business'', js ''Acme''),
       (js ''stage'', js ''retention'')]\<rparr>)))\<rparr>,
       \<lparr>localStorage = \<lparr>items = Map.empty, accessible = True, quota = 5000000\<rparr>,
       console = []\<rparr>) \<and>
   stages \<lparr>business = js ''Acme'', industry = [], sessions = Finite False 1 3,
       cpa = Finite False 427 (- 1), stages = [js ''retention''], newsletter = False\<rparr> = [js ''retention''] \<and>
   growthBriefLines en_US \<lparr>business = js ''Acme'', industry = [], sessions = Finite False 1 3,
       cpa = Finite False 427 (- 1), stages = [js ''retention''], newsletter = False\<rparr> ! 9 =
     js ''RETENTION: Expand lifetime value through loyalty programs, lifecycle messaging, and advocacy campaigns.'' \<and>
   growthBriefLines en_US \<lparr>business = js ''Acme'', industry = [], sessions = Finite False 1 3,
       cpa = Finite False 427 (- 1), stages = [js ''retention''], newsletter = False\<rparr> ! 12 =
     js ''RETENTION: Primary KPIs: repeat purchase rate, churn reduction, and NPS elevation.'' \<and>
   growthBriefLines en_US \<lparr>business = js ''Acme'', industry = [], sessions = Finite False 1 3,
       cpa = Finite False 427 (- 1), stages = [js ''retention''], newsletter = False\<rparr> =
     [js ''FoxyTrailz23 Growth Brief'',
      js ''Business: Acme'',
      js ''Industry: Not specified'',
      js ''Monthly Sessions: 1,000'',
      js ''Target CPA: $43'',
      js ''Stages: retention'',
      js ''Newsletter Sync: Disabled'',
      [],
      js ''Stage Strategy:'',
      js ''RETENTION: Expand lifetime value through loyalty programs, lifecycle messaging, and advocacy campaigns.'',
      [],
      js ''KPIs:'',
      js ''RETENTION: Primary KPIs: repeat purchase rate, churn reduction, and NPS elevation.'']"
proof -
  note t = downloadBrief_lines
  have l1: "loadConfig \<lparr>localStorage = \<lparr>items = [js ''foxytrailz23:funnel'' \<mapsto> JSON_stringify (configValue
       \<lparr>business = js ''Acme'', industry = [], sessions = Finite False 1 3,
       cpa = Finite False 427 (- 1), stages = [js ''retention''], newsletter = False\<rparr>)],
       accessible = True, quota = 5000000\<rparr>, console = []\<rparr> =
     Inr (Some (configValue \<lparr>business = js ''Acme'', industry = [], sessions = Finite False 1 3,
       cpa = Finite False 427 (- 1), stages = [js ''retention''], newsletter = False\<rparr>),
       \<lparr>localStorage = \<lparr>items = [js ''foxytrailz23:funnel'' \<mapsto> JSON_stringify (configValue
       \<lparr>business = js ''Acme'', industry = [], sessions = Finite False 1 3,
       cpa = Finite False 427 (- 1), stages = [js ''retention''], newsletter = False\<rparr>)],
       accessible = True, quota = 5000000\<rparr>, console = []\<rparr>)"
    by (simp add: loadConfig_def Storage_getItem_def stringify_config_nonempty
        JSON_parse_stringify configValue_stringSafe)
  from t [where doc = Map.empty and fmt = en_US, THEN conjunct1, rule_format, OF l1]
  have d1: "downloadBriefClick en_US Map.empty
     \<lparr>localStorage = \<lparr>items = [js ''foxytrailz23:funnel'' \<mapsto> JSON_stringify (configValue
       \<lparr>business = js ''Acme'', industry = [], sessions = Finite False 1 3,
       cpa = Finite False 427 (- 1), stages = [js ''retention''], newsletter = False\<rparr>)],
       accessible = True, quota = 5000000\<rparr>, console = []\<rparr> =
     Inr (\<lparr>filename = js ''foxytrailz23-growth-brief.txt'', mimeType = js ''text/plain'',
           content = Array_join [10] (growthBriefLines en_US \<lparr>business = js ''Acme'', industry = [], sessions = Finite False 1 3,
       cpa = Finite False 427 (- 1), stages = [js ''retention''], newsletter = False\<rparr>)\<rparr>,
       \<lparr>localStorage = \<lparr>items = [js ''foxytrailz23:funnel'' \<mapsto> JSON_stringify (configValue
       \<lparr>business = js ''Acme'', industry = [], sessions = Finite False 1 3,
       cpa = Finite False 427 (- 1), stages = [js ''retention''], newsletter = False\<rparr>)],
       accessible = True, quota = 5000000\<rparr>, console = []\<rparr>)" .
  have l0: "loadConfig \<lparr>localStorage = \<lparr>items = Map.empty, accessible = True, quota = 5000000\<rparr>,
       console = []\<rparr> =
     Inr (None, \<lparr>localStorage = \<lparr>items = Map.empty, accessible = True, quota = 5000000\<rparr>,
       console = []\<rparr>)"
    by (simp add: store_eval)
  have f0: "[js ''#analysis-form'' \<mapsto> \<lparr>childNodes = [], entryList = [(js ''business'', js ''Acme''),
       (js ''stage'', js ''retention'')]\<rparr>] (js ''#analysis-form'') =
     Some \<lparr>childNodes = [], entryList = [(js ''business'', js ''Acme''),
       (js ''stage'', js ''retention'')]\<rparr>"
    by simp
  from t [where doc = "[js ''#analysis-form'' \<mapsto> \<lparr>childNodes = [], entryList = [(js ''business'', js ''Acme''),
       (js ''stage'', js ''retention'')]\<rparr>]" and fmt = en_US,
      THEN conjunct2, THEN conjunct1, rule_format, OF conjI [OF disjI1 [OF l0] f0]]
  have d0: "downloadBriefClick en_US
     [js ''#analysis-form'' \<mapsto> \<lparr>childNodes = [], entryList = [(js ''business'', js ''Acme''),
       (js ''stage'', js ''retention'')]\<rparr>]
     \<lparr>localStorage = \<lparr>items = Map.empty, accessible = True, quota = 5000000\<rparr>,
       console = []\<rparr> =
     Inr (\<lparr>filename = js ''foxytrailz23-growth-brief.txt'', mimeType = js ''text/plain'',
           content = Array_join [10] (growthBriefLines en_US (readFunnelConfig (entryList
             \<lparr>childNodes = [], entryList = [(js ''business'', js ''Acme''),
       (js ''stage'', js ''retention'')]\<rparr>)))\<rparr>,
       \<lparr>localStorage = \<lparr>items = Map.empty, accessible = True, quota = 5000000\<rparr>,
       console = []\<rparr>)" .
  have st: "stages \<lparr>business = js ''Acme'', industry = [], sessions = Finite False 1 3,
       cpa = Finite False 427 (- 1), stages = [js ''retention''], newsletter = False\<rparr> = [js ''retention'']"
    by simp
  from t [where fmt = en_US, THEN conjunct2, THEN conjunct2, rule_format, OF st]
  have r9: "growthBriefLines en_US \<lparr>business = js ''Acme'', industry = [], sessions = Finite False 1 3,
       cpa = Finite False 427 (- 1), stages = [js ''retention''], newsletter = False\<rparr> ! 9 =
     js ''RETENTION: Expand lifetime value through loyalty programs, lifecycle messaging, and advocacy campaigns.''"
    and r12: "growthBriefLines en_US \<lparr>business = js ''Acme'', industry = [], sessions = Finite False 1 3,
       cpa = Finite False 427 (- 1), stages = [js ''retention''], newsletter = False\<rparr> ! 12 =
     js ''RETENTION: Primary KPIs: repeat purchase rate, churn reduction, and NPS elevation.''"
    by blast+
  have g: "growthBriefLines en_US \<lparr>business = js ''Acme'', industry = [], sessions = Finite False 1 3,
       cpa = Finite False 427 (- 1), stages = [js ''retention''], newsletter = False\<rparr> =
     [js ''FoxyTrailz23 Growth Brief'',
      js ''Business: Acme'',
      js ''Industry: Not specified'',
      js ''Monthly Sessions: 1,000'',
      js ''Target CPA: $43'',
      js ''Stages: retention'',
      js ''Newsletter Sync: Disabled'',
      [],
      js ''Stage Strategy:'',
      js ''RETENTION: Expand lifetime value through loyalty programs, lifecycle messaging, and advocacy campaigns.'',
      [],
      js ''KPIs:'',
      js ''RETENTION: Primary KPIs: repeat purchase rate, churn reduction, and NPS elevation.'']"
    by (simp add: growthBriefLines_def text_eval print_eval js_def)
  from l1 d1 l0 f0 d0 st r9 r12 g show ?thesis by blast
qed

end
